theory Spec2Isabelle
  imports Complex_Main "HOL-Library.Multiset" "HOL-Library.Log_Nat"
begin

section \<open>JavaScript strings and plain objects\<close>

text \<open>
  Topics and keywords are ASCII strings. On ASCII, \<^verbatim>\<open>String.prototype.toLowerCase\<close>
  replaces the letters A to Z by a to z and \<^verbatim>\<open>toUpperCase\<close> does the converse; every
  other character is kept. \<^verbatim>\<open>s.includes(k)\<close> tests whether \<open>k\<close> occurs in \<open>s\<close> as a
  contiguous substring. Outside ASCII the two case functions below are not the engine's,
  which maps further letters by the Unicode case tables; every key, alias and keyword of
  the tables is ASCII.
\<close>

definition upperLetters :: string where
  "upperLetters = ''ABCDEFGHIJKLMNOPQRSTUVWXYZ''"

definition lowerLetters :: string where
  "lowerLetters = ''abcdefghijklmnopqrstuvwxyz''"

definition lowerChar :: "char \<Rightarrow> char" where
  "lowerChar c = (case map_of (zip upperLetters lowerLetters) c of Some d \<Rightarrow> d | None \<Rightarrow> c)"

definition upperChar :: "char \<Rightarrow> char" where
  "upperChar c = (case map_of (zip lowerLetters upperLetters) c of Some d \<Rightarrow> d | None \<Rightarrow> c)"

definition toLowerCase :: "string \<Rightarrow> string" where
  "toLowerCase s = map lowerChar s"

definition toUpperCase :: "string \<Rightarrow> string" where
  "toUpperCase s = map upperChar s"

text \<open>\<^verbatim>\<open>s.charAt(i)\<close> is the empty string out of range; \<^verbatim>\<open>s.slice(i)\<close> drops \<open>i\<close> characters.\<close>

definition charAt :: "string \<Rightarrow> nat \<Rightarrow> string" where
  "charAt s i = (if i < length s then [s ! i] else [])"

definition slice :: "string \<Rightarrow> nat \<Rightarrow> string" where
  "slice s i = drop i s"

fun startsWith :: "string \<Rightarrow> string \<Rightarrow> bool" where
  "startsWith s [] = True"
| "startsWith [] (k # ks) = False"
| "startsWith (c # s) (k # ks) = (c = k \<and> startsWith s ks)"

fun includesStr :: "string \<Rightarrow> string \<Rightarrow> bool" where
  "includesStr [] k = (k = [])"
| "includesStr (c # s) k = (startsWith (c # s) k \<or> includesStr s k)"

text \<open>
  The tables of the service are object literals, so \<^verbatim>\<open>table[key]\<close> is a property read:
  an own property when the literal has the key, otherwise whatever \<^verbatim>\<open>Object.prototype\<close>
  holds under that name (a function, or the prototype object itself for \<^verbatim>\<open>__proto__\<close>),
  otherwise \<^verbatim>\<open>undefined\<close>. Own properties are kept as an association list in the
  literal's order, which is the order \<^verbatim>\<open>Object.entries\<close> follows for these keys.
\<close>

definition objectPrototype :: "string list" where
  "objectPrototype =
    [''constructor'', ''__defineGetter__'', ''__defineSetter__'', ''hasOwnProperty'',
     ''__lookupGetter__'', ''__lookupSetter__'', ''isPrototypeOf'', ''propertyIsEnumerable'',
     ''toString'', ''valueOf'', ''__proto__'', ''toLocaleString'']"

text \<open>
  The value of a property read: \<^verbatim>\<open>undefined\<close>, the value stored in the table, or the member
  of \<^verbatim>\<open>Object.prototype\<close> with the given name.
\<close>

datatype 'a lookup = Undefined | Found 'a | Inherited string

definition getProperty :: "(string \<times> 'a) list \<Rightarrow> string \<Rightarrow> 'a lookup" where
  "getProperty obj key =
    (case map_of obj key of
       Some v \<Rightarrow> Found v
     | None \<Rightarrow> if key \<in> set objectPrototype then Inherited key else Undefined)"

text \<open>
  \<^verbatim>\<open>a || b\<close> on property reads: arrays, functions and objects are truthy, only
  \<^verbatim>\<open>undefined\<close> is falsy.
\<close>

definition orElse :: "'a lookup \<Rightarrow> 'a lookup \<Rightarrow> 'a lookup" where
  "orElse a b = (case a of Undefined \<Rightarrow> b | _ \<Rightarrow> a)"

section \<open>Fallback quizzes (geminiService.ts, getFallbackQuiz)\<close>

record QuizQuestion =
  question :: string
  codeSnippet :: string
  options :: "string list"
  correctAnswerIndex :: int

definition fallbackQuizzes_java :: \<open>QuizQuestion list\<close> where
  \<open>fallbackQuizzes_java =
    [\<lparr>question =
       ''What is the output of this Java code considering method overriding and polymorphism?'',
     codeSnippet =
       ''class Parent {\<newline>'' @
       ''    void print() { System.out.println("Parent"); }\<newline>'' @
       ''}\<newline>'' @
       ''class Child extends Parent {\<newline>'' @
       ''    void print() { System.out.println("Child"); }\<newline>'' @
       ''}\<newline>'' @
       ''Parent p = new Child();\<newline>'' @
       ''p.print();'',
     options =
       [''Parent'',
        ''Child'',
        ''Compilation error'',
        ''Runtime exception''],
     correctAnswerIndex = 1\<rparr>,
     \<lparr>question =
       ''How does this Java code handle memory management and garbage collection?'',
     codeSnippet =
       ''public class MemoryTest {\<newline>'' @
       ''    public static void main(String[] args) {\<newline>'' @
       ''        List<String> list = new ArrayList<>();\<newline>'' @
       ''        for (int i = 0; i < 1000000; i++) {\<newline>'' @
       ''            list.add(new String("Object " + i));\<newline>'' @
       ''        }\<newline>'' @
       ''        list.clear();\<newline>'' @
       ''        System.gc();\<newline>'' @
       ''    }\<newline>'' @
       ''}'',
     options =
       [''Objects are immediately eligible for GC'',
        ''Objects remain until GC runs'',
        ''Memory leak occurs'',
        ''OutOfMemoryError thrown''],
     correctAnswerIndex = 1\<rparr>,
     \<lparr>question =
       ''What happens with this Java concurrent programming scenario?'',
     codeSnippet =
       ''class Counter {\<newline>'' @
       ''    private int count = 0;\<newline>'' @
       ''    public synchronized void increment() { count++; }\<newline>'' @
       ''    public int getCount() { return count; }\<newline>'' @
       ''}\<newline>'' @
       ''// Multiple threads call increment() simultaneously'',
     options =
       [''Race condition occurs'',
        ''Count is thread-safe'',
        ''Deadlock occurs'',
        ''Compilation error''],
     correctAnswerIndex = 1\<rparr>,
     \<lparr>question =
       ''How does this Java generics code behave with type erasure?'',
     codeSnippet =
       ''public class Generic<T> {\<newline>'' @
       ''    public void printType(T obj) {\<newline>'' @
       ''        System.out.println(obj.getClass().getSimpleName());\<newline>'' @
       ''    }\<newline>'' @
       ''}\<newline>'' @
       ''Generic<String> g1 = new Generic<>();\<newline>'' @
       ''Generic<Integer> g2 = new Generic<>();\<newline>'' @
       ''System.out.println(g1.getClass() == g2.getClass());'',
     options =
       [''true'',
        ''false'',
        ''Compilation error'',
        ''Runtime exception''],
     correctAnswerIndex = 0\<rparr>,
     \<lparr>question =
       ''What is the effect of this Java Stream API operation?'',
     codeSnippet =
       ''List<Integer> numbers = Arrays.asList(1, 2, 3, 4, 5);\<newline>'' @
       ''int result = numbers.stream()\<newline>'' @
       ''    .filter(n -> n % 2 == 0)\<newline>'' @
       ''    .mapToInt(Integer::intValue)\<newline>'' @
       ''    .sum();\<newline>'' @
       ''System.out.println(result);'',
     options =
       [''6'',
        ''9'',
        ''15'',
        ''0''],
     correctAnswerIndex = 0\<rparr>]\<close>

definition fallbackQuizzes_javascript :: \<open>QuizQuestion list\<close> where
  \<open>fallbackQuizzes_javascript =
    [\<lparr>question =
       ''What is the output of this code considering the event loop and microtasks?'',
     codeSnippet =
       ''Promise.resolve().then(() => console.log(1));\<newline>'' @
       ''setTimeout(() => console.log(2), 0);\<newline>'' @
       ''Promise.resolve().then(() => console.log(3));\<newline>'' @
       ''console.log(4);'',
     options =
       [''4, 1, 3, 2'',
        ''1, 3, 4, 2'',
        ''4, 2, 1, 3'',
        ''2, 4, 1, 3''],
     correctAnswerIndex = 0\<rparr>,
     \<lparr>question =
       ''Which approach prevents memory leaks in this closure scenario?'',
     codeSnippet =
       ''function createHandler() {\<newline>'' @
       ''  const data = new Array(1000000).fill('x');\<newline>'' @
       ''  return () => console.log(data.length);\<newline>'' @
       ''}\<newline>'' @
       ''const handler = createHandler();\<newline>'' @
       ''// How to prevent memory leak?'',
     options =
       [''Set data = null after use'',
        ''Use WeakMap instead'',
        ''Return function without closure'',
        ''Use setTimeout to clear data''],
     correctAnswerIndex = 0\<rparr>,
     \<lparr>question =
       ''What happens with async/await and Promise.all in this race condition?'',
     codeSnippet =
       ''async function race() {\<newline>'' @
       ''  const p1 = new Promise(r => setTimeout(() => r(1), 100));\<newline>'' @
       ''  const p2 = Promise.reject(2);\<newline>'' @
       ''  try {\<newline>'' @
       ''    const result = await Promise.all([p1, p2]);\<newline>'' @
       ''  } catch(e) { console.log(e); }\<newline>'' @
       ''}'',
     options =
       [''Logs 2 immediately'',
        ''Logs 1 after 100ms'',
        ''Never logs anything'',
        ''Throws TypeError''],
     correctAnswerIndex = 0\<rparr>,
     \<lparr>question =
       ''How does this Proxy implementation affect object property access?'',
     codeSnippet =
       ''const handler = {\<newline>'' @
       ''  get(target, prop) {\<newline>'' @
       ''    return prop in target ? target[prop] : 'default';\<newline>'' @
       ''  },\<newline>'' @
       ''  set(target, prop, value) {\<newline>'' @
       ''    target[prop] = value * 2;\<newline>'' @
       ''  }\<newline>'' @
       ''};\<newline>'' @
       ''const obj = new Proxy({}, handler);\<newline>'' @
       ''obj.x = 5;\<newline>'' @
       ''console.log(obj.x, obj.y);'',
     options =
       [''10, 'default'' @ [CHR 0x27],
        ''5, 'default'' @ [CHR 0x27],
        ''10, undefined'',
        ''5, undefined''],
     correctAnswerIndex = 0\<rparr>,
     \<lparr>question =
       ''What is the result of this complex destructuring with default values?'',
     codeSnippet =
       ''const {a = 1, b: {c = 2} = {}, d = 3} = {a: undefined, b: {c: undefined}};\<newline>'' @
       ''console.log(a, c, d);'',
     options =
       [''1, 2, 3'',
        ''undefined, undefined, 3'',
        ''1, undefined, 3'',
        ''undefined, 2, 3''],
     correctAnswerIndex = 0\<rparr>]\<close>

definition fallbackQuizzes_react :: \<open>QuizQuestion list\<close> where
  \<open>fallbackQuizzes_react =
    [\<lparr>question =
       ''Which optimization prevents re-renders in this component hierarchy?'',
     codeSnippet =
       ''const Parent = ({items}) => {\<newline>'' @
       ''  const [count, setCount] = useState(0);\<newline>'' @
       ''  return <Child data={items} onClick={() => setCount(c => c + 1)} />;\<newline>'' @
       ''};\<newline>'' @
       ''// Child re-renders on every count change. How to prevent?'',
     options =
       [''useCallback for onClick'',
        ''React.memo for Child'',
        ''useMemo for items'',
        ''Both useCallback and React.memo''],
     correctAnswerIndex = 3\<rparr>,
     \<lparr>question =
       ''What is the render output of this context provider with multiple consumers?'',
     codeSnippet =
       ''const ThemeContext = createContext('light');\<newline>'' @
       ''const App = () => (\<newline>'' @
       ''  <ThemeContext.Provider value='dark'>\<newline>'' @
       ''    <ThemeContext.Provider value='light'>\<newline>'' @
       ''      <Consumer />\<newline>'' @
       ''    </ThemeContext.Provider>\<newline>'' @
       ''  </ThemeContext.Provider>\<newline>'' @
       '');'',
     options =
       [[CHR 0x27] @ ''light' (nearest provider)'',
        [CHR 0x27] @ ''dark' (outer provider)'',
        ''Throws error'',
        ''undefined''],
     correctAnswerIndex = 0\<rparr>,
     \<lparr>question =
       ''How does this useEffect dependency array affect the cleanup timing?'',
     codeSnippet =
       ''useEffect(() => {\<newline>'' @
       ''  console.log('effect');\<newline>'' @
       ''  return () => console.log('cleanup');\<newline>'' @
       ''}, [props.data]);\<newline>'' @
       ''// When does cleanup run?'',
     options =
       [''Before next effect and unmount'',
        ''Only on unmount'',
        ''After next effect'',
        ''Never''],
     correctAnswerIndex = 0\<rparr>,
     \<lparr>question =
       ''What is the state update behavior in this concurrent rendering scenario?'',
     codeSnippet =
       ''function Counter() {\<newline>'' @
       ''  const [count, setCount] = useState(0);\<newline>'' @
       ''  const handleClick = () => {\<newline>'' @
       ''    setCount(c => c + 1);\<newline>'' @
       ''    setCount(c => c + 1);\<newline>'' @
       ''    setCount(2);\<newline>'' @
       ''  };\<newline>'' @
       ''  return <button onClick={handleClick}>{count}</button>;\<newline>'' @
       ''}'',
     options =
       [''Renders once with count=2'',
        ''Renders twice: 1 then 2'',
        ''Renders three times: 1, 2, 2'',
        ''Throws error''],
     correctAnswerIndex = 0\<rparr>,
     \<lparr>question =
       ''How does this ref forwarding pattern affect component behavior?'',
     codeSnippet =
       ''const FancyInput = React.forwardRef((props, ref) => {\<newline>'' @
       ''  const inputRef = useRef();\<newline>'' @
       ''  useImperativeHandle(ref, () => ({\<newline>'' @
       ''    focus: () => inputRef.current.focus(),\<newline>'' @
       ''    value: () => inputRef.current.value\<newline>'' @
       ''  }));\<newline>'' @
       ''  return <input ref={inputRef} {...props} />;\<newline>'' @
       ''});'',
     options =
       [''Only focus and value methods exposed'',
        ''All input methods available'',
        ''Ref is null'',
        ''Throws error''],
     correctAnswerIndex = 0\<rparr>]\<close>

definition fallbackQuizzes_python :: \<open>QuizQuestion list\<close> where
  \<open>fallbackQuizzes_python =
    [\<lparr>question =
       ''What is the method resolution order (MRO) for this complex inheritance?'',
     codeSnippet =
       ''class A: pass\<newline>'' @
       ''class B(A): pass\<newline>'' @
       ''class C(A): pass\<newline>'' @
       ''class D(B, C): pass\<newline>'' @
       ''print(D.__mro__)'',
     options =
       [''(D, B, C, A, object)'',
        ''(D, B, A, C, object)'',
        ''(D, C, B, A, object)'',
        ''(D, A, B, C, object)''],
     correctAnswerIndex = 0\<rparr>,
     \<lparr>question =
       ''How does this generator with context manager behave?'',
     codeSnippet =
       ''from contextlib import contextmanager\<newline>'' @
       ''@contextmanager\<newline>'' @
       ''def cm():\<newline>'' @
       ''  print('enter')\<newline>'' @
       ''  yield\<newline>'' @
       ''  print('exit')\<newline>'' @
       ''def gen():\<newline>'' @
       ''  with cm():\<newline>'' @
       ''    yield 1\<newline>'' @
       ''    yield 2\<newline>'' @
       ''g = gen()\<newline>'' @
       ''print(next(g))\<newline>'' @
       ''print(next(g))'',
     options =
       [''enter, 1, 2, exit'',
        ''enter, 1, exit, 2'',
        ''1, 2, enter, exit'',
        ''enter, exit, 1, 2''],
     correctAnswerIndex = 0\<rparr>,
     \<lparr>question =
       ''What is the result of this metaclass manipulation?'',
     codeSnippet =
       ''class Meta(type):\<newline>'' @
       ''  def __new__(cls, name, bases, attrs):\<newline>'' @
       ''    attrs['x'] = 42\<newline>'' @
       ''    return super().__new__(cls, name, bases, attrs)\<newline>'' @
       ''class Test(metaclass=Meta):\<newline>'' @
       ''  pass\<newline>'' @
       ''print(hasattr(Test, 'x'), hasattr(Test(), 'x'))'',
     options =
       [''True, True'',
        ''True, False'',
        ''False, True'',
        ''False, False''],
     correctAnswerIndex = 1\<rparr>,
     \<lparr>question =
       ''How does this descriptor protocol implementation work?'',
     codeSnippet =
       ''class Descriptor:\<newline>'' @
       ''  def __get__(self, obj, cls=None):\<newline>'' @
       ''    if obj is None:\<newline>'' @
       ''      return self\<newline>'' @
       ''    return obj.__dict__[self.name]\<newline>'' @
       ''  def __set_name__(self, cls, name):\<newline>'' @
       ''    self.name = name\<newline>'' @
       ''class Test:\<newline>'' @
       ''  x = Descriptor()'',
     options =
       [''Raises AttributeError on access'',
        ''Works as property'',
        ''Returns descriptor instance'',
        ''Infinite loop''],
     correctAnswerIndex = 0\<rparr>,
     \<lparr>question =
       ''What is the output of this asyncio event loop with cancellation?'',
     codeSnippet =
       ''async def task():\<newline>'' @
       ''  try:\<newline>'' @
       ''    await asyncio.sleep(1)\<newline>'' @
       ''    return 'done'\<newline>'' @
       ''  except asyncio.CancelledError:\<newline>'' @
       ''    return 'cancelled'\<newline>'' @
       ''async def main():\<newline>'' @
       ''  t = asyncio.create_task(task())\<newline>'' @
       ''  await asyncio.sleep(0.1)\<newline>'' @
       ''  t.cancel()\<newline>'' @
       ''  return await t'',
     options =
       [[CHR 0x27] @ ''cancelled'' @ [CHR 0x27],
        [CHR 0x27] @ ''done'' @ [CHR 0x27],
        ''Raises CancelledError'',
        ''None''],
     correctAnswerIndex = 0\<rparr>]\<close>

definition fallbackQuizzes_html :: \<open>QuizQuestion list\<close> where
  \<open>fallbackQuizzes_html =
    [\<lparr>question =
       ''Which semantic HTML structure provides the best accessibility for this complex '' @
       ''layout?'',
     codeSnippet =
       ''<header>\<newline>'' @
       ''  <nav aria-label='main'>\<newline>'' @
       ''    <ul><li><a href='/'>Home</a></li></ul>\<newline>'' @
       ''  </nav>\<newline>'' @
       ''</header>\<newline>'' @
       ''<main>\<newline>'' @
       ''  <article>\<newline>'' @
       ''    <section aria-labelledby='title'>\<newline>'' @
       ''      <h2 id='title'>Article Title</h2>\<newline>'' @
       ''    </section>\<newline>'' @
       ''  </article>\<newline>'' @
       ''  <aside aria-label='sidebar'></aside>\<newline>'' @
       ''</main>'',
     options =
       [''Current structure is optimal'',
        ''Use <div> instead of semantic tags'',
        ''Remove aria-labels'',
        ''Add role='application'' @ [CHR 0x27]],
     correctAnswerIndex = 0\<rparr>,
     \<lparr>question =
       ''How does this custom element with shadow DOM behave?'',
     codeSnippet =
       ''class CustomEl extends HTMLElement {\<newline>'' @
       ''  connectedCallback() {\<newline>'' @
       ''    this.attachShadow({mode: 'open'});\<newline>'' @
       ''    this.shadowRoot.innerHTML = `<slot></slot>`;\<newline>'' @
       ''  }\<newline>'' @
       ''}\<newline>'' @
       ''customElements.define('custom-el', CustomEl);\<newline>'' @
       ''// What happens with light DOM?'',
     options =
       [''Light DOM renders in slot'',
        ''Light DOM is hidden'',
        ''Throws error'',
        ''Requires named slot''],
     correctAnswerIndex = 0\<rparr>,
     \<lparr>question =
       ''What is the security implication of this content security policy?'',
     codeSnippet =
       ''Content-Security-Policy: default-src 'self'; script-src 'self' 'unsafe-inline'; '' @
       ''style-src 'self' 'unsafe-inline';'',
     options =
       [[CHR 0x27] @ ''unsafe-inline' reduces security'',
        ''Too restrictive'',
        ''Missing object-src'',
        ''Should use nonce''],
     correctAnswerIndex = 0\<rparr>,
     \<lparr>question =
       ''How does this form validation pattern work with constraint API?'',
     codeSnippet =
       ''<form id='form'>\<newline>'' @
       ''  <input type='email' required pattern='[a-z]+@[a-z]+'' @ [CHR 0x5C] @ ''.[a-z]+'>\<newline>'' @
       ''  <input type='submit'>\<newline>'' @
       ''</form>\<newline>'' @
       ''<script>\<newline>'' @
       ''form.addEventListener('submit', e => {\<newline>'' @
       ''  if (!form.checkValidity()) e.preventDefault();\<newline>'' @
       ''});\<newline>'' @
       ''</script>'',
     options =
       [''Prevents invalid submission'',
        ''Always prevents submission'',
        ''No validation occurs'',
        ''Validates on blur only''],
     correctAnswerIndex = 0\<rparr>,
     \<lparr>question =
       ''What is the rendering behavior of this complex table structure?'',
     codeSnippet =
       ''<table>\<newline>'' @
       ''  <thead>\<newline>'' @
       ''    <tr>\<newline>'' @
       ''      <th colspan='2'>Header</th>\<newline>'' @
       ''    </tr>\<newline>'' @
       ''  </thead>\<newline>'' @
       ''  <tbody>\<newline>'' @
       ''    <tr>\<newline>'' @
       ''      <td rowspan='2'>Cell 1</td>\<newline>'' @
       ''      <td>Cell 2</td>\<newline>'' @
       ''    </tr>\<newline>'' @
       ''    <tr>\<newline>'' @
       ''      <td>Cell 3</td>\<newline>'' @
       ''    </tr>\<newline>'' @
       ''  </tbody>\<newline>'' @
       ''</table>'',
     options =
       [''2x2 grid with merged cells'',
        ''Invalid HTML structure'',
        ''3x2 grid'',
        ''Renders as separate tables''],
     correctAnswerIndex = 0\<rparr>]\<close>

definition fallbackQuizzes_css :: \<open>QuizQuestion list\<close> where
  \<open>fallbackQuizzes_css =
    [\<lparr>question =
       ''Which layout algorithm provides best performance for this animation scenario?'',
     codeSnippet =
       ''.container {\<newline>'' @
       ''  /* 1000 animated children */\<newline>'' @
       ''  width: 1000px;\<newline>'' @
       ''  height: 1000px;\<newline>'' @
       ''}\<newline>'' @
       ''.child {\<newline>'' @
       ''  width: 10px;\<newline>'' @
       ''  height: 10px;\<newline>'' @
       ''  transform: translate(var(--x), var(--y));\<newline>'' @
       ''  will-change: transform;\<newline>'' @
       ''}'',
     options =
       [''CSS Grid with transform'',
        ''Flexbox with transform'',
        ''Absolute positioning with transform'',
        ''CSS custom properties''],
     correctAnswerIndex = 2\<rparr>,
     \<lparr>question =
       ''How does this CSS containment strategy affect rendering?'',
     codeSnippet =
       ''.card {\<newline>'' @
       ''  contain: layout style paint;\<newline>'' @
       ''  overflow: hidden;\<newline>'' @
       ''}\<newline>'' @
       ''.card:hover {\<newline>'' @
       ''  transform: scale(1.05);\<newline>'' @
       ''  transition: transform 0.3s;\<newline>'' @
       ''}'',
     options =
       [''Optimizes repaints and reflows'',
        ''Prevents transform animation'',
        ''Triggers layout recalculation'',
        ''No effect on performance''],
     correctAnswerIndex = 0\<rparr>,
     \<lparr>question =
       ''What is the specificity calculation for this selector combination?'',
     codeSnippet =
       ''#app .container > div.item[data-type='primary']:not(.disabled)::before'',
     options =
       [''(1, 3, 1, 1)'',
        ''(1, 2, 2, 1)'',
        ''(0, 3, 2, 1)'',
        ''(1, 3, 0, 2)''],
     correctAnswerIndex = 0\<rparr>,
     \<lparr>question =
       ''How does this CSS custom property cascade with fallbacks?'',
     codeSnippet =
       '':root { --color: blue; }\<newline>'' @
       ''.parent { --color: red; }\<newline>'' @
       ''.child { color: var(--color, var(--fallback, green)); }'',
     options =
       [''red (parent overrides)'',
        ''blue (root value)'',
        ''green (fallback)'',
        ''invalid CSS''],
     correctAnswerIndex = 0\<rparr>,
     \<lparr>question =
       ''What is the stacking context order in this complex z-index scenario?'',
     codeSnippet =
       ''.a { position: relative; z-index: 1; }\<newline>'' @
       ''.b { position: absolute; z-index: 2; }\<newline>'' @
       ''.c { position: relative; z-index: 1; transform: translateZ(0); }\<newline>'' @
       ''.d { position: sticky; z-index: 3; }'',
     options =
       [''d, b, c, a'',
        ''d, c, b, a'',
        ''b, d, c, a'',
        ''d, b, a, c''],
     correctAnswerIndex = 2\<rparr>]\<close>

definition fallbackQuizzes :: \<open>(string \<times> QuizQuestion list) list\<close> where
  \<open>fallbackQuizzes =
    [(''java'', fallbackQuizzes_java),
     (''javascript'', fallbackQuizzes_javascript),
     (''react'', fallbackQuizzes_react),
     (''python'', fallbackQuizzes_python),
     (''html'', fallbackQuizzes_html),
     (''css'', fallbackQuizzes_css)]\<close>

definition skillMatches :: "(string \<times> string list) list" where
  "skillMatches =
    [(''java'', [''java'', ''spring'', ''jvm'', ''maven'', ''gradle'']),
     (''javascript'', [''javascript'', ''js'', ''ecmascript'', ''es6'']),
     (''react'', [''react'', ''reactjs'', ''react.js'', ''jsx'']),
     (''python'', [''python'', ''py'', ''django'', ''flask'']),
     (''html'', [''html'', ''html5'', ''markup'', ''hypertext'']),
     (''css'', [''css'', ''css3'', ''stylesheet'', ''styling'']),
     (''typescript'', [''typescript'', ''ts'', ''tsx'']),
     (''vue'', [''vue'', ''vuejs'', ''vue.js'']),
     (''angular'', [''angular'', ''ng'', ''angularjs'']),
     (''c++'', [''c++'', ''cpp'', ''cplusplus'']),
     (''c#'', [''c#'', ''csharp'', ''.net'']),
     (''sql'', [''sql'', ''database'', ''mysql'', ''postgresql'']),
     (''git'', [''git'', ''github'', ''gitlab'', ''version control'']),
     (''docker'', [''docker'', ''container'', ''kubernetes'', ''k8s'']),
     (''aws'', [''aws'', ''amazon'', ''cloud'', ''lambda'']),
     (''node'', [''node'', ''nodejs'', ''node.js'', ''backend''])]"

text \<open>
  The partial-match loop: for every entry of \<open>skillMatches\<close>, in order, the first keyword of
  the entry that occurs in the topic is recorded with its length, and the inner loop stops
  there (\<^verbatim>\<open>break; // Only add each quizKey once\<close>).
\<close>

record match =
  quizKey :: string
  keyword :: string
  length' :: nat

fun collectMatches :: "string \<Rightarrow> (string \<times> string list) list \<Rightarrow> match list" where
  "collectMatches lowerSkillName [] = []"
| "collectMatches lowerSkillName ((key, keywords) # entries) =
    (case find (\<lambda>keyword. includesStr lowerSkillName keyword) keywords of
       Some kw \<Rightarrow>
         \<lparr>quizKey = key, keyword = kw, length' = length kw\<rparr>
           # collectMatches lowerSkillName entries
     | None \<Rightarrow> collectMatches lowerSkillName entries)"

text \<open>
  \<^verbatim>\<open>matches.sort((a, b) => b.length - a.length)\<close>: \<^verbatim>\<open>Array.prototype.sort\<close> is stable, so
  the matches end in descending order of length and matches of equal length keep their
  order. \<^const>\<open>sort_key\<close> is the stable insertion sort; the key is the negated length.
\<close>

definition sortMatches :: "match list \<Rightarrow> match list" where
  "sortMatches matches = sort_key (\<lambda>m. - int (length' m)) matches"

section \<open>Generated questions (geminiService.ts, generateRandomQuestions)\<close>

definition domains :: "(string \<times> string list) list" where
  "domains =
    [(''technical'', [''code'', ''programming'', ''software'', ''development'', ''algorithm'',
        ''data'', ''system'', ''network'', ''security'', ''database'']),
     (''creative'', [''design'', ''art'', ''music'', ''writing'', ''content'', ''creative'',
        ''visual'', ''media'']),
     (''business'', [''management'', ''marketing'', ''sales'', ''finance'', ''strategy'',
        ''leadership'', ''project'', ''business'']),
     (''science'', [''research'', ''analysis'', ''experiment'', ''theory'', ''scientific'',
        ''study'', ''method'']),
     (''general'', [])]"

text \<open>
  The detection loop keeps \<^verbatim>\<open>'general'\<close> unless an entry of \<open>domains\<close> has a keyword that
  occurs in the topic; the first such entry wins (\<^verbatim>\<open>break\<close>).
\<close>

definition detectDomain :: "string \<Rightarrow> string" where
  "detectDomain lowerSkillName =
    (case find (\<lambda>(domain, keywords). list_ex (\<lambda>keyword. includesStr lowerSkillName keyword) keywords)
            domains of
       Some (domain, keywords) \<Rightarrow> domain
     | None \<Rightarrow> ''general'')"

text \<open>The question pools, one per domain, with the topic inserted as the source's template literals do.\<close>

definition questionTemplates_technical :: \<open>string \<Rightarrow> QuizQuestion list\<close> where
  \<open>questionTemplates_technical skillName =
    [\<lparr>question =
       ''What is the most critical performance consideration when working with '' @
       skillName @
       ''?'',
     codeSnippet =
       ''// '' @
       skillName @
       '' performance analysis\<newline>'' @
       ''const factors = {\<newline>'' @
       ''  speed: 'Execution efficiency',\<newline>'' @
       ''  memory: 'Resource usage',\<newline>'' @
       ''  scalability: 'Growth capability',\<newline>'' @
       ''  reliability: 'System stability'\<newline>'' @
       ''};\<newline>'' @
       ''// Which factor impacts '' @
       skillName @
       '' most?'',
     options =
       [''Execution speed'',
        ''Memory efficiency'',
        ''Scalability'',
        ''Reliability''],
     correctAnswerIndex = 2\<rparr>,
     \<lparr>question =
       ''How would you optimize this '' @
       skillName @
       '' implementation for production use?'',
     codeSnippet =
       ''// '' @
       skillName @
       '' optimization scenario\<newline>'' @
       ''function process'' @
       (toUpperCase (charAt skillName 0) @ slice skillName 1) @
       ''(data) {\<newline>'' @
       ''  // Implementation details\<newline>'' @
       ''  return transform(data);\<newline>'' @
       ''}\<newline>'' @
       ''// Best optimization approach?'',
     options =
       [''Caching'',
        ''Parallel processing'',
        ''Code refactoring'',
        ''Algorithm improvement''],
     correctAnswerIndex = 1\<rparr>,
     \<lparr>question =
       ''What security considerations are most important for '' @
       skillName @
       '' applications?'',
     codeSnippet =
       ''// '' @
       skillName @
       '' security assessment\<newline>'' @
       ''const concerns = {\<newline>'' @
       ''  data: 'Information protection',\<newline>'' @
       ''  access: 'Control mechanisms',\<newline>'' @
       ''  integrity: 'Data validation',\<newline>'' @
       ''  availability: 'System uptime'\<newline>'' @
       ''};\<newline>'' @
       ''// Priority for '' @
       skillName @
       ''?'',
     options =
       [''Data protection'',
        ''Access control'',
        ''Data integrity'',
        ''System availability''],
     correctAnswerIndex = 0\<rparr>,
     \<lparr>question =
       ''Which architectural pattern best suits '' @
       skillName @
       '' development?'',
     codeSnippet =
       ''// '' @
       skillName @
       '' architecture options\<newline>'' @
       ''const patterns = {\<newline>'' @
       ''  monolithic: 'Single unit',\<newline>'' @
       ''  modular: 'Separated components',\<newline>'' @
       ''  microservices: 'Distributed services',\<newline>'' @
       ''  serverless: 'Event-driven'\<newline>'' @
       ''};\<newline>'' @
       ''// Best for '' @
       skillName @
       ''?'',
     options =
       [''Monolithic'',
        ''Modular'',
        ''Microservices'',
        ''Serverless''],
     correctAnswerIndex = 1\<rparr>,
     \<lparr>question =
       ''How do you handle error management in '' @
       skillName @
       '' projects?'',
     codeSnippet =
       ''// '' @
       skillName @
       '' error handling\<newline>'' @
       ''try {\<newline>'' @
       ''  process'' @
       (toUpperCase (charAt skillName 0) @ slice skillName 1) @
       ''();\<newline>'' @
       ''} catch (error) {\<newline>'' @
       ''  // Error strategy?\<newline>'' @
       ''}'',
     options =
       [''Silent failure'',
        ''Graceful degradation'',
        ''Immediate crash'',
        ''Retry mechanism''],
     correctAnswerIndex = 1\<rparr>]\<close>

definition questionTemplates_creative :: \<open>string \<Rightarrow> QuizQuestion list\<close> where
  \<open>questionTemplates_creative skillName =
    [\<lparr>question =
       ''What principle guides effective '' @
       skillName @
       '' design?'',
     codeSnippet =
       ''// '' @
       skillName @
       '' design principles\<newline>'' @
       ''const principles = {\<newline>'' @
       ''  balance: 'Visual harmony',\<newline>'' @
       ''  contrast: 'Element differentiation',\<newline>'' @
       ''  hierarchy: 'Importance structure',\<newline>'' @
       ''  rhythm: 'Pattern repetition'\<newline>'' @
       ''};\<newline>'' @
       ''// Most important for '' @
       skillName @
       ''?'',
     options =
       [''Balance'',
        ''Contrast'',
        ''Hierarchy'',
        ''Rhythm''],
     correctAnswerIndex = 2\<rparr>,
     \<lparr>question =
       ''How would you approach creative problem-solving in '' @
       skillName @
       ''?'',
     codeSnippet =
       ''// '' @
       skillName @
       '' creative process\<newline>'' @
       ''1. Research and analysis\<newline>'' @
       ''2. Ideation and brainstorming\<newline>'' @
       ''3. Prototyping and testing\<newline>'' @
       ''4. Refinement and finalization\<newline>'' @
       ''// Critical phase for '' @
       skillName @
       ''?'',
     options =
       [''Research'',
        ''Ideation'',
        ''Prototyping'',
        ''Refinement''],
     correctAnswerIndex = 1\<rparr>,
     \<lparr>question =
       ''What makes '' @
       skillName @
       '' work impactful?'',
     codeSnippet =
       ''// '' @
       skillName @
       '' impact factors\<newline>'' @
       ''const factors = {\<newline>'' @
       ''  originality: 'Unique approach',\<newline>'' @
       ''  execution: 'Technical quality',\<newline>'' @
       ''  relevance: 'Audience connection',\<newline>'' @
       ''  innovation: 'New perspective'\<newline>'' @
       ''};\<newline>'' @
       ''// Key impact driver?'',
     options =
       [''Originality'',
        ''Execution'',
        ''Relevance'',
        ''Innovation''],
     correctAnswerIndex = 2\<rparr>,
     \<lparr>question =
       ''How do you balance creativity and constraints in '' @
       skillName @
       ''?'',
     codeSnippet =
       ''// '' @
       skillName @
       '' constraint management\<newline>'' @
       ''const constraints = {\<newline>'' @
       ''  time: 'Deadline pressure',\<newline>'' @
       ''  budget: 'Resource limits',\<newline>'' @
       ''  scope: 'Project boundaries',\<newline>'' @
       ''  quality: 'Standards requirements'\<newline>'' @
       ''};\<newline>'' @
       ''// Biggest challenge for '' @
       skillName @
       ''?'',
     options =
       [''Time constraints'',
        ''Budget limits'',
        ''Scope boundaries'',
        ''Quality standards''],
     correctAnswerIndex = 0\<rparr>,
     \<lparr>question =
       ''What tools enhance '' @
       skillName @
       '' productivity?'',
     codeSnippet =
       ''// '' @
       skillName @
       '' tool selection\<newline>'' @
       ''const tools = {\<newline>'' @
       ''  digital: 'Software solutions',\<newline>'' @
       ''  traditional: 'Manual methods',\<newline>'' @
       ''  hybrid: 'Combined approach',\<newline>'' @
       ''  automated: 'AI-assisted'\<newline>'' @
       ''};\<newline>'' @
       ''// Best for '' @
       skillName @
       ''?'',
     options =
       [''Digital tools'',
        ''Traditional methods'',
        ''Hybrid approach'',
        ''AI automation''],
     correctAnswerIndex = 2\<rparr>]\<close>

definition questionTemplates_business :: \<open>string \<Rightarrow> QuizQuestion list\<close> where
  \<open>questionTemplates_business skillName =
    [\<lparr>question =
       ''What strategy drives success in '' @
       skillName @
       ''?'',
     codeSnippet =
       ''// '' @
       skillName @
       '' strategic planning\<newline>'' @
       ''const strategies = {\<newline>'' @
       ''  cost: 'Price leadership',\<newline>'' @
       ''  differentiation: 'Unique value',\<newline>'' @
       ''  focus: 'Niche specialization',\<newline>'' @
       ''  growth: 'Market expansion'\<newline>'' @
       ''};\<newline>'' @
       ''// Best for '' @
       skillName @
       ''?'',
     options =
       [''Cost leadership'',
        ''Differentiation'',
        ''Focus strategy'',
        ''Growth strategy''],
     correctAnswerIndex = 1\<rparr>,
     \<lparr>question =
       ''How do you measure ROI for '' @
       skillName @
       '' initiatives?'',
     codeSnippet =
       ''// '' @
       skillName @
       '' ROI metrics\<newline>'' @
       ''const metrics = {\<newline>'' @
       ''  financial: 'Monetary returns',\<newline>'' @
       ''  operational: 'Efficiency gains',\<newline>'' @
       ''  strategic: 'Market position',\<newline>'' @
       ''  customer: 'Satisfaction scores'\<newline>'' @
       ''};\<newline>'' @
       ''// Primary measure for '' @
       skillName @
       ''?'',
     options =
       [''Financial returns'',
        ''Operational efficiency'',
        ''Strategic position'',
        ''Customer satisfaction''],
     correctAnswerIndex = 1\<rparr>,
     \<lparr>question =
       ''What risk management approach suits '' @
       skillName @
       '' projects?'',
     codeSnippet =
       ''// '' @
       skillName @
       '' risk assessment\<newline>'' @
       ''const risks = {\<newline>'' @
       ''  market: 'Demand changes',\<newline>'' @
       ''  operational: 'Process failures',\<newline>'' @
       ''  financial: 'Budget overruns',\<newline>'' @
       ''  reputational: 'Brand damage'\<newline>'' @
       ''};\<newline>'' @
       ''// Highest priority for '' @
       skillName @
       ''?'',
     options =
       [''Market risks'',
        ''Operational risks'',
        ''Financial risks'',
        ''Reputational risks''],
     correctAnswerIndex = 0\<rparr>,
     \<lparr>question =
       ''How do you build teams for '' @
       skillName @
       '' success?'',
     codeSnippet =
       ''// '' @
       skillName @
       '' team composition\<newline>'' @
       ''const roles = {\<newline>'' @
       ''  leadership: 'Strategic direction',\<newline>'' @
       ''  execution: 'Implementation',\<newline>'' @
       ''  support: 'Enabling functions',\<newline>'' @
       ''  innovation: 'Creative input'\<newline>'' @
       ''};\<newline>'' @
       ''// Critical for '' @
       skillName @
       ''?'',
     options =
       [''Leadership'',
        ''Execution'',
        ''Support'',
        ''Innovation''],
     correctAnswerIndex = 1\<rparr>,
     \<lparr>question =
       ''What metrics indicate '' @
       skillName @
       '' performance?'',
     codeSnippet =
       ''// '' @
       skillName @
       '' KPI tracking\<newline>'' @
       ''const indicators = {\<newline>'' @
       ''  quantitative: 'Numerical measures',\<newline>'' @
       ''  qualitative: 'Subjective assessment',\<newline>'' @
       ''  leading: 'Predictive signals',\<newline>'' @
       ''  lagging: 'Historical results'\<newline>'' @
       ''};\<newline>'' @
       ''// Best for '' @
       skillName @
       ''?'',
     options =
       [''Quantitative'',
        ''Qualitative'',
        ''Leading'',
        ''Lagging''],
     correctAnswerIndex = 2\<rparr>]\<close>

definition questionTemplates_science :: \<open>string \<Rightarrow> QuizQuestion list\<close> where
  \<open>questionTemplates_science skillName =
    [\<lparr>question =
       ''What methodology ensures valid '' @
       skillName @
       '' research?'',
     codeSnippet =
       ''// '' @
       skillName @
       '' research methods\<newline>'' @
       ''const methods = {\<newline>'' @
       ''  experimental: 'Controlled studies',\<newline>'' @
       ''  observational: 'Natural behavior',\<newline>'' @
       ''  theoretical: 'Mathematical models',\<newline>'' @
       ''  computational: 'Simulation analysis'\<newline>'' @
       ''};\<newline>'' @
       ''// Most rigorous for '' @
       skillName @
       ''?'',
     options =
       [''Experimental'',
        ''Observational'',
        ''Theoretical'',
        ''Computational''],
     correctAnswerIndex = 0\<rparr>,
     \<lparr>question =
       ''How do you validate '' @
       skillName @
       '' findings?'',
     codeSnippet =
       ''// '' @
       skillName @
       '' validation process\<newline>'' @
       ''const steps = {\<newline>'' @
       ''  replication: 'Repeat studies',\<newline>'' @
       ''  peer: 'Expert review',\<newline>'' @
       ''  statistical: 'Data analysis',\<newline>'' @
       ''  practical: 'Real-world testing'\<newline>'' @
       ''};\<newline>'' @
       ''// Essential for '' @
       skillName @
       ''?'',
     options =
       [''Replication'',
        ''Peer review'',
        ''Statistical analysis'',
        ''Practical testing''],
     correctAnswerIndex = 0\<rparr>,
     \<lparr>question =
       ''What ethical considerations apply to '' @
       skillName @
       ''?'',
     codeSnippet =
       ''// '' @
       skillName @
       '' ethics assessment\<newline>'' @
       ''const concerns = {\<newline>'' @
       ''  consent: 'Participant agreement',\<newline>'' @
       ''  privacy: 'Data protection',\<newline>'' @
       ''  integrity: 'Honest reporting',\<newline>'' @
       ''  impact: 'Societal effects'\<newline>'' @
       ''};\<newline>'' @
       ''// Priority for '' @
       skillName @
       ''?'',
     options =
       [''Informed consent'',
        ''Privacy protection'',
        ''Research integrity'',
        ''Societal impact''],
     correctAnswerIndex = 1\<rparr>,
     \<lparr>question =
       ''How do you analyze data in '' @
       skillName @
       '' studies?'',
     codeSnippet =
       ''// '' @
       skillName @
       '' data analysis\<newline>'' @
       ''const approaches = {\<newline>'' @
       ''  descriptive: 'Summary statistics',\<newline>'' @
       ''  inferential: 'Hypothesis testing',\<newline>'' @
       ''  predictive: 'Model forecasting',\<newline>'' @
       ''  prescriptive: 'Optimization'\<newline>'' @
       ''};\<newline>'' @
       ''// Most appropriate for '' @
       skillName @
       ''?'',
     options =
       [''Descriptive'',
        ''Inferential'',
        ''Predictive'',
        ''Prescriptive''],
     correctAnswerIndex = 1\<rparr>,
     \<lparr>question =
       ''What tools enhance '' @
       skillName @
       '' research?'',
     codeSnippet =
       ''// '' @
       skillName @
       '' research tools\<newline>'' @
       ''const equipment = {\<newline>'' @
       ''  measurement: 'Data collection',\<newline>'' @
       ''  analysis: 'Processing software',\<newline>'' @
       ''  visualization: 'Result presentation',\<newline>'' @
       ''  collaboration: 'Team coordination'\<newline>'' @
       ''};\<newline>'' @
       ''// Critical for '' @
       skillName @
       ''?'',
     options =
       [''Measurement tools'',
        ''Analysis software'',
        ''Visualization tools'',
        ''Collaboration platforms''],
     correctAnswerIndex = 1\<rparr>]\<close>

definition questionTemplates_general :: \<open>string \<Rightarrow> QuizQuestion list\<close> where
  \<open>questionTemplates_general skillName =
    [\<lparr>question =
       ''What skill is most valuable for '' @
       skillName @
       '' mastery?'',
     codeSnippet =
       ''// '' @
       skillName @
       '' skill assessment\<newline>'' @
       ''const abilities = {\<newline>'' @
       ''  technical: 'Domain knowledge',\<newline>'' @
       ''  creative: 'Innovative thinking',\<newline>'' @
       ''  analytical: 'Problem solving',\<newline>'' @
       ''  communication: 'Information exchange'\<newline>'' @
       ''};\<newline>'' @
       ''// Essential for '' @
       skillName @
       ''?'',
     options =
       [''Technical knowledge'',
        ''Creative thinking'',
        ''Analytical skills'',
        ''Communication''],
     correctAnswerIndex = 2\<rparr>,
     \<lparr>question =
       ''How do you approach learning '' @
       skillName @
       '' effectively?'',
     codeSnippet =
       ''// '' @
       skillName @
       '' learning strategy\<newline>'' @
       ''const methods = {\<newline>'' @
       ''  theoretical: 'Study concepts',\<newline>'' @
       ''  practical: 'Hands-on experience',\<newline>'' @
       ''  collaborative: 'Group learning',\<newline>'' @
       ''  selfDirected: 'Independent exploration'\<newline>'' @
       ''};\<newline>'' @
       ''// Best for '' @
       skillName @
       ''?'',
     options =
       [''Theory study'',
        ''Practice'',
        ''Collaboration'',
        ''Self-directed''],
     correctAnswerIndex = 1\<rparr>,
     \<lparr>question =
       ''What challenges are common when learning '' @
       skillName @
       ''?'',
     codeSnippet =
       ''// '' @
       skillName @
       '' learning obstacles\<newline>'' @
       ''const barriers = {\<newline>'' @
       ''  complexity: 'Difficult concepts',\<newline>'' @
       ''  resources: 'Limited materials',\<newline>'' @
       ''  time: 'Insufficient practice',\<newline>'' @
       ''  motivation: 'Low engagement'\<newline>'' @
       ''};\<newline>'' @
       ''// Biggest hurdle for '' @
       skillName @
       ''?'',
     options =
       [''Complexity'',
        ''Resource limits'',
        ''Time constraints'',
        ''Motivation''],
     correctAnswerIndex = 0\<rparr>,
     \<lparr>question =
       ''How do you apply '' @
       skillName @
       '' in real situations?'',
     codeSnippet =
       ''// '' @
       skillName @
       '' practical application\<newline>'' @
       ''const contexts = {\<newline>'' @
       ''  academic: 'Educational settings',\<newline>'' @
       ''  professional: 'Work environments',\<newline>'' @
       ''  personal: 'Individual projects',\<newline>'' @
       ''  community: 'Group activities'\<newline>'' @
       ''};\<newline>'' @
       ''// Most relevant for '' @
       skillName @
       ''?'',
     options =
       [''Academic'',
        ''Professional'',
        ''Personal'',
        ''Community''],
     correctAnswerIndex = 1\<rparr>,
     \<lparr>question =
       ''What resources support '' @
       skillName @
       '' development?'',
     codeSnippet =
       ''// '' @
       skillName @
       '' resource types\<newline>'' @
       ''const materials = {\<newline>'' @
       ''  books: 'Written guides',\<newline>'' @
       ''  courses: 'Structured learning',\<newline>'' @
       ''  mentors: 'Expert guidance',\<newline>'' @
       ''  practice: 'Applied experience'\<newline>'' @
       ''};\<newline>'' @
       ''// Most valuable for '' @
       skillName @
       ''?'',
     options =
       [''Books'',
        ''Courses'',
        ''Mentors'',
        ''Practice''],
     correctAnswerIndex = 3\<rparr>]\<close>

definition questionTemplates :: "string \<Rightarrow> (string \<times> QuizQuestion list) list" where
  "questionTemplates skillName =
    [(''technical'', questionTemplates_technical skillName),
     (''creative'', questionTemplates_creative skillName),
     (''business'', questionTemplates_business skillName),
     (''science'', questionTemplates_science skillName),
     (''general'', questionTemplates_general skillName)]"

text \<open>
  \<^verbatim>\<open>[...domainQuestions].sort(() => Math.random() - 0.5)\<close> reorders a copy of the pool in a
  way that depends on the random source and on the engine's sorting algorithm. The
  reordering is the parameter \<open>shuffle\<close>; all that is known of it is that it permutes its
  argument. The detected domain is always a key of \<open>questionTemplates\<close>
  (lemma \<open>generateRandomQuestions_pool\<close>), so the right-hand side of
  \<^verbatim>\<open>questionTemplates[detectedDomain] || questionTemplates.general\<close> is never used.
\<close>

definition generateRandomQuestions ::
  "(QuizQuestion list \<Rightarrow> QuizQuestion list) \<Rightarrow> string \<Rightarrow> QuizQuestion list" where
  "generateRandomQuestions shuffle skillName =
    (let lowerSkillName = toLowerCase skillName;
         detectedDomain = detectDomain lowerSkillName;
         domainQuestions =
           (case getProperty (questionTemplates skillName) detectedDomain of
              Found qs \<Rightarrow> qs
            | _ \<Rightarrow> questionTemplates_general skillName);
         shuffled = shuffle domainQuestions
     in take 5 shuffled)"

text \<open>
  \<open>getFallbackQuiz\<close>: the exact match on \<open>skillMatches\<close>, the partial matches sorted by
  length, the older loop over the keys of \<open>fallbackQuizzes\<close>, and the generated questions.
  The function returns what its \<^verbatim>\<open>return\<close> statements evaluate to: a list of questions
  (\<open>Found\<close>), or the value of a property read that found no list.
\<close>

definition getFallbackQuiz ::
  "(QuizQuestion list \<Rightarrow> QuizQuestion list) \<Rightarrow> string \<Rightarrow> QuizQuestion list lookup" where
  "getFallbackQuiz shuffle skillName =
    (let lowerSkillName = toLowerCase skillName in
     if getProperty skillMatches lowerSkillName \<noteq> Undefined
     then orElse (getProperty fallbackQuizzes lowerSkillName)
                 (getProperty fallbackQuizzes ''javascript'')
     else
       (case sortMatches (collectMatches lowerSkillName skillMatches) of
          bestMatch # others \<Rightarrow>
            orElse (getProperty fallbackQuizzes (quizKey bestMatch))
                   (getProperty fallbackQuizzes ''javascript'')
        | [] \<Rightarrow>
            (case find (\<lambda>(key, questions). includesStr lowerSkillName key) fallbackQuizzes of
               Some (key, questions) \<Rightarrow> Found questions
             | None \<Rightarrow> Found (generateRandomQuestions shuffle skillName))))"

text \<open>The answer index of a question points into its options.\<close>

abbreviation answerInRange :: "QuizQuestion \<Rightarrow> bool" where
  "answerInRange q \<equiv>
     0 \<le> correctAnswerIndex q \<and> correctAnswerIndex q < int (length (options q))"

section \<open>Errors and the retry wrapper (geminiService.ts, retryWithBackoff)\<close>

text \<open>
  A thrown value, as far as the code looks into it: \<^verbatim>\<open>error?.error?.code\<close>,
  \<^verbatim>\<open>error?.message\<close> and \<^verbatim>\<open>error?.status\<close>, each absent or present. Codes are
  numbers and messages are strings, as for the errors the SDK, \<^verbatim>\<open>JSON.parse\<close> and
  \<^verbatim>\<open>new Error(...)\<close> produce.
\<close>

record js_error =
  code :: "int option"
  message :: "string option"
  status :: "int option"

text \<open>\<^verbatim>\<open>new Error(msg)\<close>.\<close>

definition Error :: "string \<Rightarrow> js_error" where
  "Error msg = \<lparr>code = None, message = Some msg, status = None\<rparr>"

definition is503Error :: "js_error \<Rightarrow> bool" where
  "is503Error error =
    (code error = Some 503 \<or>
     (case message error of Some m \<Rightarrow> includesStr m ''503'' | None \<Rightarrow> False) \<or>
     status error = Some 503)"

text \<open>The errors that are rethrown at once (\<^verbatim>\<open>"Client error, not retrying:"\<close>).\<close>

definition clientError :: "js_error \<Rightarrow> bool" where
  "clientError error = (code error = Some 400 \<or> code error = Some 401)"

subsection \<open>Numbers\<close>

text \<open>
  A JavaScript number is an IEEE 754 binary64 value: a real with a significand of 53 bits
  and an exponent from -1022 to 1023 (below that, a multiple of \<open>2 ^ -1074\<close>), one of the
  two infinities, or \<^verbatim>\<open>NaN\<close>. The two zeros are not told apart: nothing here divides.
\<close>

datatype number = Finite real | PosInfinity | NegInfinity | NaN

text \<open>
  \<open>binade x\<close> is the exponent \<open>e\<close> with \<open>2 ^ e \<le> x < 2 ^ (e + 1)\<close>, for \<open>x\<close> above 0. The
  numbers of binary64 next to \<open>x\<close> are \<open>ulp x\<close> apart, and an arithmetic operation gives the
  one nearest to the exact result, the one with the even significand when two are equally
  near (\<open>round64\<close>); a result of magnitude \<open>2 ^ 1024\<close> or more after rounding is an infinity
  (\<open>toNumber\<close>).
\<close>

definition binade :: "real \<Rightarrow> int" where
  "binade x = (if 1 \<le> x then bitlen \<lfloor>x\<rfloor> - 1 else - bitlen (\<lceil>1 / x\<rceil> - 1))"

definition roundHalfEven :: "real \<Rightarrow> int" where
  "roundHalfEven x =
    (let f = \<lfloor>x\<rfloor>; d = x - of_int f
     in if d < 1 / 2 then f else if 1 / 2 < d then f + 1 else if even f then f else f + 1)"

definition ulp :: "real \<Rightarrow> real" where
  "ulp x = 2 powi (max (binade \<bar>x\<bar>) (- 1022) - 52)"

definition round64 :: "real \<Rightarrow> real" where
  "round64 x =
    (if x = 0 then 0
     else sgn x * (ulp x * of_int (roundHalfEven (\<bar>x\<bar> / ulp x))))"

definition toNumber :: "real \<Rightarrow> number" where
  "toNumber x =
    (let r = round64 x
     in if 2 ^ 1024 \<le> r then PosInfinity
        else if r \<le> - (2 ^ 1024) then NegInfinity
        else Finite r)"

text \<open>The operators \<^verbatim>\<open>*\<close> and \<^verbatim>\<open>+\<close> on numbers.\<close>

fun timesNumber :: "number \<Rightarrow> number \<Rightarrow> number" where
  "timesNumber NaN y = NaN"
| "timesNumber x NaN = NaN"
| "timesNumber (Finite x) (Finite y) = toNumber (x * y)"
| "timesNumber (Finite x) PosInfinity =
    (if x = 0 then NaN else if 0 < x then PosInfinity else NegInfinity)"
| "timesNumber (Finite x) NegInfinity =
    (if x = 0 then NaN else if 0 < x then NegInfinity else PosInfinity)"
| "timesNumber PosInfinity (Finite y) =
    (if y = 0 then NaN else if 0 < y then PosInfinity else NegInfinity)"
| "timesNumber NegInfinity (Finite y) =
    (if y = 0 then NaN else if 0 < y then NegInfinity else PosInfinity)"
| "timesNumber PosInfinity PosInfinity = PosInfinity"
| "timesNumber PosInfinity NegInfinity = NegInfinity"
| "timesNumber NegInfinity PosInfinity = NegInfinity"
| "timesNumber NegInfinity NegInfinity = PosInfinity"

fun plusNumber :: "number \<Rightarrow> number \<Rightarrow> number" where
  "plusNumber NaN y = NaN"
| "plusNumber x NaN = NaN"
| "plusNumber (Finite x) (Finite y) = toNumber (x + y)"
| "plusNumber PosInfinity NegInfinity = NaN"
| "plusNumber NegInfinity PosInfinity = NaN"
| "plusNumber PosInfinity y = PosInfinity"
| "plusNumber NegInfinity y = NegInfinity"
| "plusNumber (Finite x) y = y"

text \<open>
  \<^verbatim>\<open>Math.pow(2, n)\<close> for an integer \<open>n\<close>: the power of two itself where binary64 has it
  (the engines compute these powers exactly), \<^verbatim>\<open>Infinity\<close> above and 0 below.
\<close>

definition pow2 :: "int \<Rightarrow> number" where
  "pow2 n =
    (if 1024 \<le> n then PosInfinity
     else if n < - 1074 then Finite 0
     else Finite (2 powi n))"

subsection \<open>The wrapper\<close>

text \<open>
  The delay before the next attempt:
  \<^verbatim>\<open>baseDelay * Math.pow(2, attempt) + Math.random() * 2000\<close> for a 503 error and
  \<^verbatim>\<open>baseDelay * Math.pow(2, attempt - 1) + Math.random() * 1000\<close> otherwise, each operator
  rounding its result. \<open>random\<close> is the value of \<^verbatim>\<open>Math.random()\<close>, and \<open>baseDelay\<close> is a
  finite number (every caller leaves it at its default, 1000).
\<close>

definition backoffDelay :: "real \<Rightarrow> nat \<Rightarrow> bool \<Rightarrow> real \<Rightarrow> number" where
  "backoffDelay baseDelay attempt is503 random =
    (if is503
     then plusNumber (timesNumber (Finite baseDelay) (pow2 (int attempt)))
            (timesNumber (Finite random) (Finite 2000))
     else plusNumber (timesNumber (Finite baseDelay) (pow2 (int attempt - 1)))
            (timesNumber (Finite random) (Finite 1000)))"

text \<open>
  A run of the wrapper is recorded by what it returns or throws, how often it invoked the
  operation, and the delays it waited, in order. The operation is given by what its
  \<open>n\<close>-th invocation does (\<open>operation n\<close>, counted from 1: attempt \<open>n\<close> makes the \<open>n\<close>-th
  invocation), and \<open>random n\<close> is the value \<^verbatim>\<open>Math.random()\<close> gives in attempt \<open>n\<close>.
  \<open>maxRetries\<close> is a natural number. The loop runs \<open>attempt\<close> from 1 while
  \<open>attempt \<le> maxRetries\<close>; the \<^verbatim>\<open>throw\<close> after the loop is reached when \<open>maxRetries\<close> is 0.
\<close>

record 'a retry_run =
  outcome :: "js_error + 'a"
  invocations :: nat
  delays :: "number list"

function retryLoop ::
  "(nat \<Rightarrow> js_error + 'a) \<Rightarrow> (nat \<Rightarrow> real) \<Rightarrow> nat \<Rightarrow> real \<Rightarrow> nat \<Rightarrow> 'a retry_run" where
  "retryLoop operation random maxRetries baseDelay attempt =
    (if attempt \<le> maxRetries then
       (case operation attempt of
          Inr result \<Rightarrow> \<lparr>outcome = Inr result, invocations = 1, delays = []\<rparr>
        | Inl error \<Rightarrow>
            if clientError error
            then \<lparr>outcome = Inl error, invocations = 1, delays = []\<rparr>
            else if attempt = maxRetries
            then \<lparr>outcome = Inl error, invocations = 1, delays = []\<rparr>
            else
              (let delay = backoffDelay baseDelay attempt (is503Error error) (random attempt);
                   later = retryLoop operation random maxRetries baseDelay (attempt + 1)
               in \<lparr>outcome = outcome later,
                   invocations = 1 + invocations later,
                   delays = delay # delays later\<rparr>))
     else \<lparr>outcome = Inl (Error ''Max retries exceeded''), invocations = 0, delays = []\<rparr>)"
  by pat_completeness auto
termination
  by (relation "measure (\<lambda>(operation, random, maxRetries, baseDelay, attempt).
        maxRetries + 1 - attempt)") auto

declare retryLoop.simps [simp del]

definition retryWithBackoff ::
  "(nat \<Rightarrow> js_error + 'a) \<Rightarrow> (nat \<Rightarrow> real) \<Rightarrow> nat \<Rightarrow> real \<Rightarrow> 'a retry_run" where
  "retryWithBackoff operation random maxRetries baseDelay =
    retryLoop operation random maxRetries baseDelay 1"

section \<open>Decoded responses\<close>

text \<open>
  What \<^verbatim>\<open>JSON.parse\<close> returns. Objects keep their own properties in an association list.
  Numbers are integers here; no operation below looks at a number beyond its truthiness.
\<close>

datatype json =
    JNull
  | JBool bool
  | JNumber int
  | JString string
  | JArray "json list"
  | JObject "(string \<times> json) list"

text \<open>
  A property read gives a value or \<^verbatim>\<open>undefined\<close> (\<open>None\<close>). \<^verbatim>\<open>!v\<close> is true exactly for
  \<^verbatim>\<open>undefined\<close>, \<^verbatim>\<open>null\<close>, \<^verbatim>\<open>false\<close>, \<^verbatim>\<open>0\<close> and the empty string.
\<close>

fun truthy :: "json option \<Rightarrow> bool" where
  "truthy None = False"
| "truthy (Some JNull) = False"
| "truthy (Some (JBool b)) = b"
| "truthy (Some (JNumber n)) = (n \<noteq> 0)"
| "truthy (Some (JString s)) = (s \<noteq> [])"
| "truthy (Some (JArray xs)) = True"
| "truthy (Some (JObject kvs)) = True"

text \<open>
  \<^verbatim>\<open>v.name\<close>: a \<^verbatim>\<open>TypeError\<close> on \<^verbatim>\<open>null\<close> and \<^verbatim>\<open>undefined\<close> (with V8's message), the own
  property on an object, and \<^verbatim>\<open>undefined\<close> on arrays, strings, numbers and booleans, whose
  prototypes have none of the names read below (\<^verbatim>\<open>skills\<close>, \<^verbatim>\<open>roadmap\<close>, \<^verbatim>\<open>title\<close>,
  \<^verbatim>\<open>description\<close>, \<^verbatim>\<open>duration\<close>, \<^verbatim>\<open>resources\<close>, \<^verbatim>\<open>choices\<close>, \<^verbatim>\<open>message\<close>,
  \<^verbatim>\<open>content\<close>).
\<close>

definition cannotRead :: "string \<Rightarrow> string \<Rightarrow> js_error" where
  "cannotRead what name =
    Error (''Cannot read properties of '' @ what @ '' (reading '' @ [CHR 0x27] @ name @ [CHR 0x27] @ '')'')"

fun getMember :: "json option \<Rightarrow> string \<Rightarrow> js_error + json option" where
  "getMember None name = Inl (cannotRead ''undefined'' name)"
| "getMember (Some JNull) name = Inl (cannotRead ''null'' name)"
| "getMember (Some (JObject kvs)) name = Inr (map_of kvs name)"
| "getMember (Some v) name = Inr None"

text \<open>\<^verbatim>\<open>v?.name\<close> gives \<^verbatim>\<open>undefined\<close> where \<^verbatim>\<open>v.name\<close> would throw.\<close>

fun getMemberOpt :: "json option \<Rightarrow> string \<Rightarrow> json option" where
  "getMemberOpt (Some (JObject kvs)) name = map_of kvs name"
| "getMemberOpt v name = None"

text \<open>
  \<^verbatim>\<open>v[0]\<close>: the first element of an array, the first character of a string, the property
  \<^verbatim>\<open>"0"\<close> of an object.
\<close>

fun getFirst :: "json option \<Rightarrow> js_error + json option" where
  "getFirst None = Inl (cannotRead ''undefined'' ''0'')"
| "getFirst (Some JNull) = Inl (cannotRead ''null'' ''0'')"
| "getFirst (Some (JArray xs)) = Inr (case xs of [] \<Rightarrow> None | x # rest \<Rightarrow> Some x)"
| "getFirst (Some (JString s)) = Inr (case s of [] \<Rightarrow> None | c # rest \<Rightarrow> Some (JString [c]))"
| "getFirst (Some (JObject kvs)) = Inr (map_of kvs ''0'')"
| "getFirst (Some v) = Inr None"

fun isArray :: "json option \<Rightarrow> bool" where
  "isArray (Some (JArray xs)) = True"
| "isArray v = False"

fun isString :: "json option \<Rightarrow> bool" where
  "isString (Some (JString s)) = True"
| "isString v = False"

text \<open>Sequencing of steps that may throw, and \<^verbatim>\<open>try { ... } catch (error) { ... }\<close>.\<close>

fun andThen :: "js_error + 'a \<Rightarrow> ('a \<Rightarrow> js_error + 'b) \<Rightarrow> js_error + 'b" where
  "andThen (Inl error) f = Inl error"
| "andThen (Inr x) f = f x"

fun tryCatch :: "js_error + 'a \<Rightarrow> (js_error \<Rightarrow> js_error + 'a) \<Rightarrow> js_error + 'a" where
  "tryCatch (Inl error) handler = handler error"
| "tryCatch (Inr x) handler = Inr x"

text \<open>Decimal digits of a number, as a template literal prints it.\<close>

function showNat :: "nat \<Rightarrow> string" where
  "showNat n =
    (if n < 10 then [''0123456789'' ! n]
     else showNat (n div 10) @ [''0123456789'' ! (n mod 10)])"
  by pat_completeness auto
termination
  by (relation "measure id") auto

text \<open>\<^verbatim>\<open>${error.message}\<close> prints \<^verbatim>\<open>undefined\<close> for an absent message.\<close>

definition messageText :: "js_error \<Rightarrow> string" where
  "messageText error = (case message error of Some m \<Rightarrow> m | None \<Rightarrow> ''undefined'')"

text \<open>
  \<^verbatim>\<open>content.replace(/```json\n?|```/g, '').trim()\<close>: every fence marker is removed, scanning
  from the left, then the white space at both ends. Contents are ASCII strings, and
  \<open>whiteSpace\<close> holds the white space of ASCII: space, tab, line feed, vertical tab, form
  feed and carriage return. The engine's \<^verbatim>\<open>trim\<close> also removes the white space and line
  terminators that Unicode has outside ASCII.
\<close>

function stripFences :: "string \<Rightarrow> string" where
  "stripFences s =
    (if s = [] then []
     else if startsWith s ''```json''
     then (let rest = drop 7 s
           in stripFences (if startsWith rest [CHR 0x0A] then drop 1 rest else rest))
     else if startsWith s ''```'' then stripFences (drop 3 s)
     else hd s # stripFences (tl s))"
  by pat_completeness auto
termination
  by (relation "measure length") (auto simp: Let_def)

definition whiteSpace :: "char \<Rightarrow> bool" where
  "whiteSpace c = (c \<in> set [CHR '' '', CHR 0x09, CHR 0x0A, CHR 0x0B, CHR 0x0C, CHR 0x0D])"

definition trim :: "string \<Rightarrow> string" where
  "trim s = rev (dropWhile whiteSpace (rev (dropWhile whiteSpace s)))"

section \<open>The Gemini operations (geminiService.ts)\<close>

text \<open>
  The environment holds the two variables \<open>getAIClient\<close> reads. A variable that is unset
  or empty is falsy. The client is represented by the key it was made with.
\<close>

record env =
  API_KEY :: "string option"
  GEMINI_API_KEY :: "string option"

definition getAIClient :: "env \<Rightarrow> js_error + string" where
  "getAIClient e =
    (let apiKey =
           (case API_KEY e of
              Some k \<Rightarrow> if k \<noteq> [] then Some k else GEMINI_API_KEY e
            | None \<Rightarrow> GEMINI_API_KEY e)
     in case apiKey of
          Some k \<Rightarrow> if k \<noteq> [] then Inr k else Inl (Error ''API Key not found'')
        | None \<Rightarrow> Inl (Error ''API Key not found''))"

text \<open>
  What \<^verbatim>\<open>await ai.models.generateContent(...)\<close> does: it throws, or it gives a response
  whose \<^verbatim>\<open>text\<close> is a string or absent. The prompt does not enter the control flow and is
  left out. \<^verbatim>\<open>JSON.parse\<close> is a parameter of every operation that decodes a text.
\<close>

datatype gemini_reply = Rejects js_error | Response "string option"

definition parseText ::
  "(string \<Rightarrow> js_error + json) \<Rightarrow> string option \<Rightarrow> json \<Rightarrow> js_error + json" where
  "parseText JSON_parse text otherwise =
    (case text of
       Some t \<Rightarrow> if t \<noteq> [] then JSON_parse t else Inr otherwise
     | None \<Rightarrow> Inr otherwise)"

definition generateQuizInternal ::
  "env \<Rightarrow> (string \<Rightarrow> js_error + json) \<Rightarrow> gemini_reply \<Rightarrow> js_error + json" where
  "generateQuizInternal e JSON_parse reply =
    andThen (getAIClient e) (\<lambda>ai.
      case reply of
        Rejects error \<Rightarrow> Inl error
      | Response text \<Rightarrow> parseText JSON_parse text (JArray []))"

text \<open>
  \<open>generateQuiz\<close> returns the decoded response of an attempt that succeeded, or the
  fallback quiz. \<open>remote n\<close> is the reply to the request of the \<open>n\<close>-th attempt.
\<close>

datatype quiz_result = Generated json | Fallback "QuizQuestion list lookup"

definition generateQuiz ::
  "env \<Rightarrow> (string \<Rightarrow> js_error + json) \<Rightarrow> (nat \<Rightarrow> gemini_reply) \<Rightarrow> (nat \<Rightarrow> real) \<Rightarrow>
   (QuizQuestion list \<Rightarrow> QuizQuestion list) \<Rightarrow> string \<Rightarrow> quiz_result" where
  "generateQuiz e JSON_parse remote random shuffle skillName =
    (case outcome (retryWithBackoff (\<lambda>n. generateQuizInternal e JSON_parse (remote n))
                     random 3 1000) of
       Inr quiz \<Rightarrow> Generated quiz
     | Inl error \<Rightarrow> Fallback (getFallbackQuiz shuffle skillName))"

definition generateRoadmap ::
  "env \<Rightarrow> (string \<Rightarrow> js_error + json) \<Rightarrow> gemini_reply \<Rightarrow> js_error + json" where
  "generateRoadmap e JSON_parse reply =
    andThen (getAIClient e) (\<lambda>ai.
      tryCatch
        (case reply of
           Rejects error \<Rightarrow> Inl error
         | Response text \<Rightarrow> parseText JSON_parse text (JArray []))
        (\<lambda>error. Inl error))"

definition analyzeMatch ::
  "env \<Rightarrow> (string \<Rightarrow> js_error + json) \<Rightarrow> gemini_reply \<Rightarrow> js_error + json" where
  "analyzeMatch e JSON_parse reply =
    andThen (getAIClient e) (\<lambda>ai.
      tryCatch
        (case reply of
           Rejects error \<Rightarrow> Inl error
         | Response text \<Rightarrow>
             parseText JSON_parse text
               (JObject [(''score'', JNumber 0),
                         (''reasoning'', JString ''Could not analyze match.''),
                         (''commonInterests'', JArray [])]))
        (\<lambda>error.
           Inr (JObject [(''score'', JNumber 50),
                         (''reasoning'', JString ''AI analysis unavailable.''),
                         (''commonInterests'', JArray [])])))"

text \<open>\<^verbatim>\<open>data.skills || []\<close>.\<close>

definition orEmptyArray :: "json option \<Rightarrow> json" where
  "orEmptyArray v = (case v of Some x \<Rightarrow> if truthy v then x else JArray [] | None \<Rightarrow> JArray [])"

definition suggestSkills ::
  "env \<Rightarrow> (string \<Rightarrow> js_error + json) \<Rightarrow> gemini_reply \<Rightarrow> string list \<Rightarrow> string list \<Rightarrow>
   js_error + json" where
  "suggestSkills e JSON_parse reply currentSkills currentGoals =
    andThen (getAIClient e) (\<lambda>ai.
      tryCatch
        (case reply of
           Rejects error \<Rightarrow> Inl error
         | Response text \<Rightarrow>
             (case text of
                Some t \<Rightarrow>
                  if t \<noteq> []
                  then andThen (JSON_parse t) (\<lambda>data.
                         andThen (getMember (Some data) ''skills'') (\<lambda>skills.
                           Inr (orEmptyArray skills)))
                  else Inr (JArray [])
              | None \<Rightarrow> Inr (JArray [])))
        (\<lambda>error.
           Inr (JArray (map JString
             (filter (\<lambda>s. s \<notin> set currentSkills \<and> s \<notin> set currentGoals)
                [''Machine Learning'', ''Cloud Computing'', ''Cybersecurity'', ''DevOps'',
                 ''Blockchain''])))))"

section \<open>The direct Mistral operations (mistralDirectService.ts)\<close>

text \<open>
  What \<^verbatim>\<open>await fetch(...)\<close> does: it throws, or it gives a response with \<^verbatim>\<open>ok\<close>,
  \<^verbatim>\<open>status\<close>, \<^verbatim>\<open>statusText\<close> and the outcome of \<^verbatim>\<open>await response.json()\<close>.
\<close>

record http_response =
  ok :: bool
  http_status :: nat
  statusText :: string
  body :: "js_error + json"

text \<open>
  The common part of both operations, up to the decoded content:
  \<^verbatim>\<open>data.choices[0]?.message?.content\<close>, the check for content, the removal of fences and
  \<^verbatim>\<open>JSON.parse\<close>. Content that is truthy and not a string has no \<^verbatim>\<open>replace\<close> method.
\<close>

definition directContent ::
  "(string \<Rightarrow> js_error + json) \<Rightarrow> js_error + http_response \<Rightarrow> js_error + json" where
  "directContent JSON_parse fetched =
    andThen fetched (\<lambda>response.
      if \<not> ok response
      then Inl (Error (''Mistral API error: '' @ showNat (http_status response) @ '' '' @
                       statusText response))
      else
        andThen (body response) (\<lambda>data.
          andThen (getMember (Some data) ''choices'') (\<lambda>choices.
            andThen (getFirst choices) (\<lambda>choice.
              let content = getMemberOpt (getMemberOpt choice ''message'') ''content'' in
              if \<not> truthy content
              then Inl (Error ''No content received from Mistral API'')
              else
                (case content of
                   Some (JString c) \<Rightarrow> JSON_parse (trim (stripFences c))
                 | _ \<Rightarrow> Inl (Error ''content.replace is not a function''))))))"

definition suggestSkillsDirect ::
  "(string \<Rightarrow> js_error + json) \<Rightarrow> js_error + http_response \<Rightarrow> json" where
  "suggestSkillsDirect JSON_parse fetched =
    (case andThen (directContent JSON_parse fetched) (\<lambda>parsed.
            andThen (getMember (Some parsed) ''skills'') (\<lambda>skills.
              if \<not> truthy skills \<or> \<not> isArray skills
              then Inl (Error ''Invalid response format'')
              else (case skills of
                      Some v \<Rightarrow> Inr v
                    | None \<Rightarrow> Inl (Error ''Invalid response format'')))) of
       Inr skills \<Rightarrow> skills
     | Inl error \<Rightarrow>
         JArray [JString ''React'', JString ''Node.js'', JString ''TypeScript'',
                 JString ''Docker'', JString ''AWS''])"

definition roadmapStep ::
  "int \<Rightarrow> string \<Rightarrow> string \<Rightarrow> string \<Rightarrow> string list \<Rightarrow> json" where
  "roadmapStep n title description duration resources =
    JObject [(''step'', JNumber n), (''title'', JString title),
             (''description'', JString description), (''duration'', JString duration),
             (''resources'', JArray (map JString resources))]"

definition fallbackRoadmap :: "string \<Rightarrow> json" where
  "fallbackRoadmap skill =
    JArray
      [roadmapStep 1 (''Getting Started with '' @ skill)
         (''Learn the fundamentals and basic concepts of '' @ skill) ''1-2 weeks''
         [''Official documentation'', ''Beginner tutorials'', ''Practice exercises''],
       roadmapStep 2 (''Core '' @ skill @ '' Concepts'')
         ''Deep dive into essential concepts and principles'' ''2-3 weeks''
         [''Video courses'', ''Hands-on projects'', ''Community forums''],
       roadmapStep 3 ''Practical Application''
         ''Apply your knowledge through real-world projects'' ''3-4 weeks''
         [''Project templates'', ''Code repositories'', ''Mentorship programs''],
       roadmapStep 4 ''Advanced Techniques''
         ''Master advanced concepts and best practices'' ''4-6 weeks''
         [''Advanced documentation'', ''Expert tutorials'', ''Case studies''],
       roadmapStep 5 ''Specialization''
         (''Focus on specific areas of expertise within '' @ skill) ''6-8 weeks''
         [''Specialized courses'', ''Research papers'', ''Professional workshops''],
       roadmapStep 6 ''Mastery & Portfolio''
         ''Build a comprehensive portfolio and contribute to the community'' ''8-12 weeks''
         [''Portfolio projects'', ''Open source contributions'', ''Speaking opportunities'']]"

definition generateRoadmapDirect ::
  "(string \<Rightarrow> js_error + json) \<Rightarrow> js_error + http_response \<Rightarrow> string \<Rightarrow> json" where
  "generateRoadmapDirect JSON_parse fetched skill =
    (case andThen (directContent JSON_parse fetched) (\<lambda>parsed.
            andThen (getMember (Some parsed) ''roadmap'') (\<lambda>roadmap.
              if \<not> truthy roadmap \<or> \<not> isArray roadmap
              then Inl (Error ''Invalid response format'')
              else (case roadmap of
                      Some v \<Rightarrow> Inr v
                    | None \<Rightarrow> Inl (Error ''Invalid response format'')))) of
       Inr roadmap \<Rightarrow> roadmap
     | Inl error \<Rightarrow> fallbackRoadmap skill)"

section \<open>The Mistral service behind LangChain (the second service module)\<close>

text \<open>
  \<^verbatim>\<open>await mistral.invoke(prompt)\<close> throws or gives a message whose \<^verbatim>\<open>content\<close> is a string.
  Both operations share the name of a Gemini operation; they carry the suffix \<open>Mistral\<close>.
  Every failure inside the \<^verbatim>\<open>try\<close> is thrown again as a new error with a prefixed message.
\<close>

definition suggestSkillsMistral ::
  "(string \<Rightarrow> js_error + json) \<Rightarrow> js_error + string \<Rightarrow> js_error + json" where
  "suggestSkillsMistral JSON_parse invoked =
    tryCatch
      (andThen invoked (\<lambda>content.
         andThen (JSON_parse (trim (stripFences content))) (\<lambda>data.
           andThen (getMember (Some data) ''skills'') (\<lambda>skills.
             if \<not> truthy skills \<or> \<not> isArray skills
             then Inl (Error ''Invalid skills response structure'')
             else
               (case skills of
                  Some (JArray xs) \<Rightarrow>
                    if length xs \<noteq> 5
                    then Inl (Error (''Expected 5 skills, got '' @ showNat (length xs)))
                    else Inr (JArray xs)
                | _ \<Rightarrow> Inl (Error ''Invalid skills response structure''))))))
      (\<lambda>error. Inl (Error (''Failed to suggest skills: '' @ messageText error)))"

text \<open>The body of the \<^verbatim>\<open>forEach\<close> callback, for the step at \<open>index\<close>.\<close>

definition stepName :: "nat \<Rightarrow> string" where
  "stepName index = ''Step '' @ showNat (index + 1)"

definition validateStep :: "json \<Rightarrow> nat \<Rightarrow> js_error + unit" where
  "validateStep step index =
    andThen (getMember (Some step) ''title'') (\<lambda>title.
      if \<not> truthy title \<or> \<not> isString title
      then Inl (Error (stepName index @ '': Invalid title''))
      else
        andThen (getMember (Some step) ''description'') (\<lambda>description.
          if \<not> truthy description \<or> \<not> isString description
          then Inl (Error (stepName index @ '': Invalid description''))
          else
            andThen (getMember (Some step) ''duration'') (\<lambda>duration.
              if \<not> truthy duration \<or> \<not> isString duration
              then Inl (Error (stepName index @ '': Invalid duration''))
              else
                andThen (getMember (Some step) ''resources'') (\<lambda>resources.
                  (case resources of
                     Some (JArray rs) \<Rightarrow>
                       if length rs \<noteq> 3
                       then Inl (Error (stepName index @ '': Must have exactly 3 resources''))
                       else Inr ()
                   | _ \<Rightarrow> Inl (Error (stepName index @ '': Must have exactly 3 resources'')))))))"

fun validateSteps :: "json list \<Rightarrow> nat \<Rightarrow> js_error + unit" where
  "validateSteps [] index = Inr ()"
| "validateSteps (step # steps) index =
    andThen (validateStep step index) (\<lambda>u. validateSteps steps (index + 1))"

definition generateRoadmapMistral ::
  "(string \<Rightarrow> js_error + json) \<Rightarrow> js_error + string \<Rightarrow> js_error + json" where
  "generateRoadmapMistral JSON_parse invoked =
    tryCatch
      (andThen invoked (\<lambda>content.
         andThen (JSON_parse (trim (stripFences content))) (\<lambda>data.
           andThen (getMember (Some data) ''roadmap'') (\<lambda>roadmap.
             if \<not> truthy roadmap \<or> \<not> isArray roadmap
             then Inl (Error ''Invalid roadmap response structure'')
             else
               (case roadmap of
                  Some (JArray steps) \<Rightarrow>
                    if length steps \<noteq> 6
                    then Inl (Error (''Expected 6 roadmap steps, got '' @ showNat (length steps)))
                    else andThen (validateSteps steps 0) (\<lambda>u. Inr (JArray steps))
                | _ \<Rightarrow> Inl (Error ''Invalid roadmap response structure''))))))
      (\<lambda>error. Inl (Error (''Failed to generate roadmap: '' @ messageText error)))"

text \<open>The shape of a roadmap step that passes the checks of the \<^verbatim>\<open>forEach\<close> callback.\<close>

abbreviation nonEmptyStringField :: "(string \<times> json) list \<Rightarrow> string \<Rightarrow> bool" where
  "nonEmptyStringField kvs name \<equiv> (\<exists>s. map_of kvs name = Some (JString s) \<and> s \<noteq> [])"

abbreviation wellFormedStep :: "json \<Rightarrow> bool" where
  "wellFormedStep step \<equiv>
    (\<exists>kvs rs. step = JObject kvs \<and>
       nonEmptyStringField kvs ''title'' \<and>
       nonEmptyStringField kvs ''description'' \<and>
       nonEmptyStringField kvs ''duration'' \<and>
       map_of kvs ''resources'' = Some (JArray rs) \<and> length rs = 3)"

section \<open>Properties of the fallback selection\<close>

subsection \<open>Strings, sorting and the partial-match loop\<close>

lemma lowerChar_not_upper: "lowerChar c \<notin> set upperLetters"
  by (simp add: lowerChar_def upperLetters_def lowerLetters_def)

lemma toLowerCase_no_upper: "c \<in> set upperLetters \<Longrightarrow> c \<notin> set (toLowerCase s)"
  using lowerChar_not_upper by (auto simp: toLowerCase_def)

lemma inherited_lower:
  assumes "toLowerCase T \<in> set objectPrototype"
  shows "toLowerCase T = ''constructor'' \<or> toLowerCase T = ''__proto__''"
proof -
  have u: "\<And>c. c \<in> set upperLetters \<Longrightarrow> c \<notin> set (toLowerCase T)"
    by (rule toLowerCase_no_upper)
  have "CHR ''G'' \<notin> set (toLowerCase T)" "CHR ''S'' \<notin> set (toLowerCase T)"
    "CHR ''O'' \<notin> set (toLowerCase T)" "CHR ''P'' \<notin> set (toLowerCase T)"
    "CHR ''L'' \<notin> set (toLowerCase T)" "CHR ''E'' \<notin> set (toLowerCase T)"
    by (rule u, simp add: upperLetters_def)+
  with assms show ?thesis
    by (auto simp: objectPrototype_def)
qed

lemma hd_sort_key_unique_min:
  assumes "m \<in> set xs" and "\<forall>x \<in> set xs. x = m \<or> f m < f x"
  shows "\<exists>rest. sort_key f xs = m # rest"
proof -
  let ?ys = "sort_key f xs"
  have ne: "?ys \<noteq> []" using assms(1) by (metis empty_iff set_empty set_sort)
  then obtain h rest where ys: "?ys = h # rest" by (cases ?ys) auto
  have hin: "h \<in> set xs" by (metis list.set_intros(1) set_sort ys)
  have "sorted (map f ?ys)" by (rule sorted_sort_key)
  moreover have "m \<in> set ?ys" using assms(1) by simp
  ultimately have "f h \<le> f m" unfolding ys by auto
  with assms(2) hin have "h = m" by force
  with ys show ?thesis by simp
qed

lemma in_collectMatches:
  "m \<in> set (collectMatches l tbl) \<longleftrightarrow>
     (\<exists>k kws kw. (k, kws) \<in> set tbl \<and> find (\<lambda>keyword. includesStr l keyword) kws = Some kw \<and>
        m = \<lparr>quizKey = k, keyword = kw, length' = length kw\<rparr>)"
proof (induction tbl)
  case Nil
  show ?case by simp
next
  case (Cons e tbl)
  obtain key kws0 where e: "e = (key, kws0)" by (cases e)
  show ?case
  proof (cases "find (\<lambda>keyword. includesStr l keyword) kws0")
    case None
    with Cons e show ?thesis by auto
  next
    case (Some kw)
    with Cons e show ?thesis by auto
  qed
qed

lemma distinct_skillMatches: "distinct (map fst skillMatches)"
  by (simp add: skillMatches_def)

lemma skillMatches_unique:
  assumes "(k, kws) \<in> set skillMatches" and "(k, kws') \<in> set skillMatches"
  shows "kws = kws'"
  using assms distinct_skillMatches by (metis map_of_is_SomeI option.inject)

subsection \<open>The exact match\<close>

lemma quiz_of_keys:
  "list_all (\<lambda>k. orElse (getProperty fallbackQuizzes k) (getProperty fallbackQuizzes ''javascript'') =
         Found (case map_of fallbackQuizzes k of Some qs \<Rightarrow> qs | None \<Rightarrow> fallbackQuizzes_javascript))
     (map fst skillMatches)"
  by (simp add: skillMatches_def fallbackQuizzes_def getProperty_def objectPrototype_def orElse_def)

lemma quiz_of_key:
  assumes "k \<in> fst ` set skillMatches"
  shows "orElse (getProperty fallbackQuizzes k) (getProperty fallbackQuizzes ''javascript'') =
         Found (case map_of fallbackQuizzes k of Some qs \<Rightarrow> qs | None \<Rightarrow> fallbackQuizzes_javascript)"
proof -
  from assms have "k \<in> set (map fst skillMatches)" by simp
  with quiz_of_keys show ?thesis
    unfolding list_all_iff by (rule bspec)
qed

lemma skillMatches_exact:
  assumes "k \<in> fst ` set skillMatches"
  shows "getProperty skillMatches k \<noteq> Undefined"
proof -
  from assms have "map_of skillMatches k \<noteq> None"
    by (simp add: map_of_eq_None_iff)
  then show ?thesis by (auto simp: getProperty_def)
qed

lemma getFallbackQuiz_exact:
  assumes "toLowerCase T \<in> fst ` set skillMatches"
  shows "getFallbackQuiz shuffle T =
         Found (case map_of fallbackQuizzes (toLowerCase T) of
                  Some qs \<Rightarrow> qs
                | None \<Rightarrow> fallbackQuizzes_javascript)"
  using skillMatches_exact [OF assms] quiz_of_key [OF assms]
  by (simp add: getFallbackQuiz_def Let_def)

text \<open>
  Claim C7, as the code has it. A topic whose lower-case form is a key of \<open>skillMatches\<close>
  is answered by the exact-match branch, before any keyword is scanned: with that key's own
  entry of \<open>fallbackQuizzes\<close> when there is one (java, javascript, react, python, html and
  css have one), and with the javascript set for the other ten keys
  (\<^verbatim>\<open>fallbackQuizzes[lowerSkillName] || fallbackQuizzes['javascript']\<close>). The topic
  \<^verbatim>\<open>java\<close> gets the java set.
\<close>

theorem exact_key_own_set_or_javascript:
  "(toLowerCase T \<in> fst ` set skillMatches \<longrightarrow>
      getFallbackQuiz shuffle T =
        Found (case map_of fallbackQuizzes (toLowerCase T) of
                 Some qs \<Rightarrow> qs
               | None \<Rightarrow> fallbackQuizzes_javascript)) \<and>
   map fst fallbackQuizzes = [''java'', ''javascript'', ''react'', ''python'', ''html'', ''css''] \<and>
   getFallbackQuiz shuffle ''java'' = Found fallbackQuizzes_java"
proof -
  have l: "toLowerCase ''java'' = ''java''"
    by (simp add: toLowerCase_def lowerChar_def upperLetters_def lowerLetters_def)
  have "toLowerCase ''java'' \<in> fst ` set skillMatches"
    unfolding l by (simp add: skillMatches_def)
  from getFallbackQuiz_exact [OF this, of shuffle]
  have "getFallbackQuiz shuffle ''java'' = Found fallbackQuizzes_java"
    unfolding l by (simp add: fallbackQuizzes_def)
  moreover have "map fst fallbackQuizzes =
      [''java'', ''javascript'', ''react'', ''python'', ''html'', ''css'']"
    by (simp add: fallbackQuizzes_def)
  ultimately show ?thesis using getFallbackQuiz_exact by blast
qed

text \<open>The theorem at the topic \<^verbatim>\<open>React\<close>, whose lower-case form is a key with a set of its own.\<close>

theorem exact_key_own_set_or_javascript_witness:
  "toLowerCase ''React'' \<in> fst ` set skillMatches \<and>
   getFallbackQuiz id ''React'' = Found fallbackQuizzes_react"
proof -
  have l: "toLowerCase ''React'' = ''react''"
    by (simp add: toLowerCase_def lowerChar_def upperLetters_def lowerLetters_def)
  have k: "toLowerCase ''React'' \<in> fst ` set skillMatches"
    unfolding l by (simp add: skillMatches_def)
  have m: "map_of fallbackQuizzes ''react'' = Some fallbackQuizzes_react"
    by (simp add: fallbackQuizzes_def)
  from exact_key_own_set_or_javascript [of "''React''" id] k show ?thesis
    by (simp add: l m)
qed

text \<open>
  The claim as stated promises every key its own content. \<^verbatim>\<open>typescript\<close> is a key of
  \<open>skillMatches\<close> with no entry in \<open>fallbackQuizzes\<close>; the topic gets the javascript set.
\<close>

theorem typescript_gets_javascript_set:
  "toLowerCase ''typescript'' = ''typescript'' \<and>
   ''typescript'' \<in> fst ` set skillMatches \<and>
   map_of fallbackQuizzes ''typescript'' = None \<and>
   getFallbackQuiz id ''typescript'' = Found fallbackQuizzes_javascript"
  by (simp add: getFallbackQuiz_def toLowerCase_def lowerChar_def upperLetters_def lowerLetters_def
      skillMatches_def fallbackQuizzes_def getProperty_def objectPrototype_def orElse_def)

subsection \<open>Shape of the returned questions\<close>

lemma fallbackQuizzes_shape:
  "list_all (\<lambda>(key, questions). length questions = 5 \<and> list_all answerInRange questions) fallbackQuizzes"
  by (simp add: fallbackQuizzes_def fallbackQuizzes_java_def fallbackQuizzes_javascript_def
      fallbackQuizzes_react_def fallbackQuizzes_python_def fallbackQuizzes_html_def
      fallbackQuizzes_css_def)

lemma questionTemplates_shape:
  "list_all (\<lambda>(domain, questions). length questions = 5 \<and> list_all answerInRange questions)
     (questionTemplates skillName)"
  by (simp add: questionTemplates_def questionTemplates_technical_def questionTemplates_creative_def
      questionTemplates_business_def questionTemplates_science_def questionTemplates_general_def)

lemma fallbackQuizzes_entry_shape:
  assumes "(key, questions) \<in> set fallbackQuizzes"
  shows "length questions = 5 \<and> list_all answerInRange questions"
  using fallbackQuizzes_shape assms unfolding list_all_iff by fastforce

lemma quiz_case_shape:
  "length (case map_of fallbackQuizzes k of Some qs \<Rightarrow> qs | None \<Rightarrow> fallbackQuizzes_javascript) = 5 \<and>
   list_all answerInRange
     (case map_of fallbackQuizzes k of Some qs \<Rightarrow> qs | None \<Rightarrow> fallbackQuizzes_javascript)"
proof (cases "map_of fallbackQuizzes k")
  case None
  have "(''javascript'', fallbackQuizzes_javascript) \<in> set fallbackQuizzes"
    by (simp add: fallbackQuizzes_def)
  from fallbackQuizzes_entry_shape [OF this] None show ?thesis by simp
next
  case (Some qs)
  then have "(k, qs) \<in> set fallbackQuizzes" by (rule map_of_SomeD)
  from fallbackQuizzes_entry_shape [OF this] Some show ?thesis by simp
qed

lemma questionTemplates_entry_shape:
  assumes "(domain, questions) \<in> set (questionTemplates skillName)"
  shows "length questions = 5 \<and> list_all answerInRange questions"
  using questionTemplates_shape [of skillName] assms unfolding list_all_iff by fastforce

lemma domainQuestions_shape:
  "length (case getProperty (questionTemplates skillName) d of
             Found qs \<Rightarrow> qs | _ \<Rightarrow> questionTemplates_general skillName) = 5 \<and>
   list_all answerInRange (case getProperty (questionTemplates skillName) d of
             Found qs \<Rightarrow> qs | _ \<Rightarrow> questionTemplates_general skillName)"
proof (cases "map_of (questionTemplates skillName) d")
  case None
  have "(''general'', questionTemplates_general skillName) \<in> set (questionTemplates skillName)"
    by (simp add: questionTemplates_def)
  from questionTemplates_entry_shape [OF this] None show ?thesis
    by (simp add: getProperty_def)
next
  case (Some qs)
  then have "(d, qs) \<in> set (questionTemplates skillName)" by (rule map_of_SomeD)
  from questionTemplates_entry_shape [OF this] Some show ?thesis
    by (simp add: getProperty_def)
qed

lemma take5_shuffle_shape:
  assumes perm: "mset (shuffle qs) = mset qs"
    and "length qs = 5 \<and> list_all answerInRange qs"
  shows "length (take 5 (shuffle qs)) = 5 \<and> list_all answerInRange (take 5 (shuffle qs))"
proof -
  from perm have len: "length (shuffle qs) = length qs" by (rule mset_eq_length)
  from perm have "set (shuffle qs) = set qs" by (rule mset_eq_setD)
  with assms(2) have "list_all answerInRange (shuffle qs)" by (simp add: list_all_iff)
  with len assms(2) show ?thesis by simp
qed

lemma generateRandomQuestions_shape:
  assumes "\<And>qs. mset (shuffle qs) = mset qs"
  shows "length (generateRandomQuestions shuffle skillName) = 5 \<and>
         list_all answerInRange (generateRandomQuestions shuffle skillName)"
  unfolding generateRandomQuestions_def Let_def
  using assms domainQuestions_shape by (rule take5_shuffle_shape)

lemma bestMatch_key:
  assumes "sortMatches (collectMatches l skillMatches) = bestMatch # others"
  shows "quizKey bestMatch \<in> fst ` set skillMatches"
proof -
  have "bestMatch \<in> set (sortMatches (collectMatches l skillMatches))"
    unfolding assms by simp
  then have "bestMatch \<in> set (collectMatches l skillMatches)"
    by (simp add: sortMatches_def)
  then obtain k kws kw where "(k, kws) \<in> set skillMatches"
    and "bestMatch = \<lparr>quizKey = k, keyword = kw, length' = length kw\<rparr>"
    unfolding in_collectMatches by blast
  then show ?thesis by force
qed

lemma getFallbackQuiz_partial:
  assumes "getProperty skillMatches (toLowerCase T) = Undefined"
    and "sortMatches (collectMatches (toLowerCase T) skillMatches) = bestMatch # others"
  shows "getFallbackQuiz shuffle T =
         Found (case map_of fallbackQuizzes (quizKey bestMatch) of
                  Some qs \<Rightarrow> qs
                | None \<Rightarrow> fallbackQuizzes_javascript)"
  using assms quiz_of_key [OF bestMatch_key [OF assms(2)]]
  by (simp add: getFallbackQuiz_def Let_def)

text \<open>
  Every topic whose lower-case form is not the name of a member of \<^verbatim>\<open>Object.prototype\<close>
  gets five questions, each with its answer index inside its options, whatever permutation
  the shuffle applies.
\<close>

lemma getFallbackQuiz_shape:
  assumes perm: "\<And>qs. mset (shuffle qs) = mset qs"
    and not_inherited: "toLowerCase T \<noteq> ''constructor''" "toLowerCase T \<noteq> ''__proto__''"
  shows "\<exists>qs. getFallbackQuiz shuffle T = Found qs \<and> length qs = 5 \<and> list_all answerInRange qs"
proof (cases "getProperty skillMatches (toLowerCase T) = Undefined")
  case False
  from not_inherited inherited_lower have own: "toLowerCase T \<notin> set objectPrototype"
    by blast
  with False have "map_of skillMatches (toLowerCase T) \<noteq> None"
    by (auto simp: getProperty_def split: option.splits)
  then have "toLowerCase T \<in> fst ` set skillMatches"
    by (simp add: map_of_eq_None_iff)
  from getFallbackQuiz_exact [OF this] quiz_case_shape show ?thesis by simp
next
  case True
  show ?thesis
  proof (cases "sortMatches (collectMatches (toLowerCase T) skillMatches)")
    case (Cons bestMatch others)
    from getFallbackQuiz_partial [OF True Cons] quiz_case_shape show ?thesis by simp
  next
    case Nil
    show ?thesis
    proof (cases "find (\<lambda>(key, questions). includesStr (toLowerCase T) key) fallbackQuizzes")
      case None
      with True Nil have "getFallbackQuiz shuffle T = Found (generateRandomQuestions shuffle T)"
        by (simp add: getFallbackQuiz_def Let_def)
      with generateRandomQuestions_shape [OF perm] show ?thesis by simp
    next
      case (Some e)
      obtain key questions where e: "e = (key, questions)" by (cases e)
      from Some have "e \<in> set fallbackQuizzes"
        by (metis find_Some_iff nth_mem)
      with e have "length questions = 5 \<and> list_all answerInRange questions"
        using fallbackQuizzes_entry_shape by simp
      moreover from True Nil Some e have "getFallbackQuiz shuffle T = Found questions"
        by (simp add: getFallbackQuiz_def Let_def)
      ultimately show ?thesis by simp
    qed
  qed
qed

text \<open>
  Claim C1: for every topic the fallback selection returns five questions with the answer
  index in range. The code misses it at the topics \<^verbatim>\<open>constructor\<close> and \<^verbatim>\<open>__proto__\<close>:
  \<^verbatim>\<open>skillMatches[lowerSkillName]\<close> reads the member inherited from \<^verbatim>\<open>Object.prototype\<close>,
  which is truthy, so the exact-match branch returns \<^verbatim>\<open>fallbackQuizzes[lowerSkillName]\<close>, the
  same inherited member, in place of a list of questions.
\<close>

theorem getFallbackQuiz_constructor:
  "getFallbackQuiz shuffle ''constructor'' = Inherited ''constructor'' \<and>
   getFallbackQuiz shuffle ''__proto__'' = Inherited ''__proto__''"
  by (simp add: getFallbackQuiz_def toLowerCase_def lowerChar_def upperLetters_def lowerLetters_def
      getProperty_def skillMatches_def fallbackQuizzes_def objectPrototype_def orElse_def)

subsection \<open>Partial matches\<close>

lemma bestMatch_strictly_longest:
  assumes B: "(B, kwsB) \<in> set skillMatches"
    and b: "find (\<lambda>keyword. includesStr l keyword) kwsB = Some b"
    and others: "\<forall>(A, kwsA) \<in> set skillMatches. A \<noteq> B \<longrightarrow>
          (\<forall>a. find (\<lambda>keyword. includesStr l keyword) kwsA = Some a \<longrightarrow> length a < length b)"
  shows "\<exists>rest. sortMatches (collectMatches l skillMatches) =
           \<lparr>quizKey = B, keyword = b, length' = length b\<rparr> # rest"
proof -
  let ?m = "\<lparr>quizKey = B, keyword = b, length' = length b\<rparr>"
  let ?f = "\<lambda>m. - int (length' m)"
  from B b have mem: "?m \<in> set (collectMatches l skillMatches)"
    unfolding in_collectMatches by blast
  have "\<forall>x \<in> set (collectMatches l skillMatches). x = ?m \<or> ?f ?m < ?f x"
  proof
    fix x assume "x \<in> set (collectMatches l skillMatches)"
    then obtain k kws kw where k: "(k, kws) \<in> set skillMatches"
      and kw: "find (\<lambda>keyword. includesStr l keyword) kws = Some kw"
      and x: "x = \<lparr>quizKey = k, keyword = kw, length' = length kw\<rparr>"
      unfolding in_collectMatches by blast
    show "x = ?m \<or> ?f ?m < ?f x"
    proof (cases "k = B")
      case True
      with k B have "kws = kwsB" using skillMatches_unique by simp
      with kw b have "kw = b" by simp
      with True x show ?thesis by simp
    next
      case False
      with others k kw have "length kw < length b" by fastforce
      with x show ?thesis by simp
    qed
  qed
  from hd_sort_key_unique_min [OF mem this] show ?thesis
    by (simp add: sortMatches_def)
qed

text \<open>
  Claim C6, as the code has it. The partial-match loop records for each key the first
  keyword of its list that occurs in the topic, not the longest one. When the topic is not
  answered by the exact match, and the keyword recorded for key \<open>B\<close> is strictly longer than
  the keyword recorded for every other key, the sorted matches start with \<open>B\<close> and the topic
  gets \<open>B\<close>'s set of \<open>fallbackQuizzes\<close>, or the javascript set when \<open>B\<close> has none.
\<close>

theorem partial_match_first_listed_alias:
  assumes "getProperty skillMatches (toLowerCase T) = Undefined"
    and "(B, kwsB) \<in> set skillMatches"
    and "find (\<lambda>keyword. includesStr (toLowerCase T) keyword) kwsB = Some b"
    and "\<forall>(A, kwsA) \<in> set skillMatches. A \<noteq> B \<longrightarrow>
          (\<forall>a. find (\<lambda>keyword. includesStr (toLowerCase T) keyword) kwsA = Some a \<longrightarrow>
             length a < length b)"
  shows "(\<exists>rest. sortMatches (collectMatches (toLowerCase T) skillMatches) =
            \<lparr>quizKey = B, keyword = b, length' = length b\<rparr> # rest) \<and>
         getFallbackQuiz shuffle T =
           Found (case map_of fallbackQuizzes B of
                    Some qs \<Rightarrow> qs
                  | None \<Rightarrow> fallbackQuizzes_javascript)"
proof -
  from bestMatch_strictly_longest [OF assms(2) assms(3) assms(4)]
  obtain rest where s: "sortMatches (collectMatches (toLowerCase T) skillMatches) =
      \<lparr>quizKey = B, keyword = b, length' = length b\<rparr> # rest" by blast
  from getFallbackQuiz_partial [OF assms(1) s] s show ?thesis by simp
qed

lemma lower_reactjs: "toLowerCase ''ReactJS'' = ''reactjs''"
  by (simp add: toLowerCase_def lowerChar_def upperLetters_def lowerLetters_def)

text \<open>
  The theorem at the topic \<^verbatim>\<open>ReactJS\<close>: \<^verbatim>\<open>react\<close> (five characters) is recorded for react,
  \<^verbatim>\<open>js\<close> for javascript, and the topic gets the react set.
\<close>

theorem partial_match_first_listed_alias_witness:
  "getProperty skillMatches (toLowerCase ''ReactJS'') = Undefined \<and>
   (''react'', [''react'', ''reactjs'', ''react.js'', ''jsx'']) \<in> set skillMatches \<and>
   find (\<lambda>keyword. includesStr (toLowerCase ''ReactJS'') keyword)
     [''react'', ''reactjs'', ''react.js'', ''jsx''] = Some ''react'' \<and>
   getFallbackQuiz id ''ReactJS'' = Found fallbackQuizzes_react"
proof -
  have 1: "getProperty skillMatches (toLowerCase ''ReactJS'') = Undefined"
    unfolding lower_reactjs by (simp add: getProperty_def skillMatches_def objectPrototype_def)
  have 2: "(''react'', [''react'', ''reactjs'', ''react.js'', ''jsx'']) \<in> set skillMatches"
    by (simp add: skillMatches_def)
  have 3: "find (\<lambda>keyword. includesStr (toLowerCase ''ReactJS'') keyword)
     [''react'', ''reactjs'', ''react.js'', ''jsx''] = Some ''react''"
    unfolding lower_reactjs by simp
  have 4: "\<forall>(A, kwsA) \<in> set skillMatches. A \<noteq> ''react'' \<longrightarrow>
          (\<forall>a. find (\<lambda>keyword. includesStr (toLowerCase ''ReactJS'') keyword) kwsA = Some a \<longrightarrow>
             length a < length ''react'')"
    unfolding lower_reactjs by (simp add: skillMatches_def)
  have 5: "map_of fallbackQuizzes ''react'' = Some fallbackQuizzes_react"
    by (simp add: fallbackQuizzes_def)
  from partial_match_first_listed_alias [OF 1 2 3 4, of id] 1 2 3 show ?thesis
    by (simp add: 5)
qed

text \<open>
  The claim as stated fails at the topic \<^verbatim>\<open>reactjs python\<close>. It contains \<^verbatim>\<open>python\<close> (six
  characters, a keyword of python) and \<^verbatim>\<open>reactjs\<close> (seven characters, a keyword of react),
  so the claim resolves it to react. The loop records \<^verbatim>\<open>react\<close> (five characters) for
  react, and the topic gets the python set.
\<close>

theorem longer_alias_loses_counterexample:
  "getProperty skillMatches (toLowerCase ''reactjs python'') = Undefined \<and>
   map_of skillMatches ''python'' = Some [''python'', ''py'', ''django'', ''flask''] \<and>
   map_of skillMatches ''react'' = Some [''react'', ''reactjs'', ''react.js'', ''jsx''] \<and>
   includesStr (toLowerCase ''reactjs python'') ''python'' \<and>
   includesStr (toLowerCase ''reactjs python'') ''reactjs'' \<and>
   length ''python'' < length ''reactjs'' \<and>
   map quizKey (sortMatches (collectMatches (toLowerCase ''reactjs python'') skillMatches)) =
     [''python'', ''react'', ''javascript''] \<and>
   getFallbackQuiz id ''reactjs python'' = Found fallbackQuizzes_python \<and>
   getProperty fallbackQuizzes ''react'' = Found fallbackQuizzes_react \<and>
   fallbackQuizzes_python \<noteq> fallbackQuizzes_react"
proof -
  have l: "toLowerCase ''reactjs python'' = ''reactjs python''"
    by (simp add: toLowerCase_def lowerChar_def upperLetters_def lowerLetters_def)
  have s: "sortMatches (collectMatches ''reactjs python'' skillMatches) =
     [\<lparr>quizKey = ''python'', keyword = ''python'', length' = 6\<rparr>,
      \<lparr>quizKey = ''react'', keyword = ''react'', length' = 5\<rparr>,
      \<lparr>quizKey = ''javascript'', keyword = ''js'', length' = 2\<rparr>]"
    by (simp add: sortMatches_def skillMatches_def)
  have u: "getProperty skillMatches ''reactjs python'' = Undefined"
    by (simp add: getProperty_def skillMatches_def objectPrototype_def)
  have q: "getFallbackQuiz id ''reactjs python'' = Found fallbackQuizzes_python"
    using getFallbackQuiz_partial [of "''reactjs python''" _ _ id, unfolded l, OF u s]
    by (simp add: fallbackQuizzes_def)
  have d: "fallbackQuizzes_python \<noteq> fallbackQuizzes_react"
    by (simp add: fallbackQuizzes_python_def fallbackQuizzes_react_def)
  show ?thesis
    unfolding l using u s q d
    by (simp add: skillMatches_def getProperty_def fallbackQuizzes_def)
qed

subsection \<open>Domain classification\<close>

lemma fallbackQuizzes_keys_are_keywords:
  "list_all (\<lambda>(key, questions).
       case map_of skillMatches key of Some kws \<Rightarrow> key \<in> set kws | None \<Rightarrow> False)
     fallbackQuizzes"
  by (simp add: fallbackQuizzes_def skillMatches_def)

lemma older_loop_unreachable:
  assumes "collectMatches l skillMatches = []"
  shows "find (\<lambda>(key, questions). includesStr l key) fallbackQuizzes = None"
proof (rule ccontr)
  assume "find (\<lambda>(key, questions). includesStr l key) fallbackQuizzes \<noteq> None"
  then obtain e where f: "find (\<lambda>(key, questions). includesStr l key) fallbackQuizzes = Some e"
    by blast
  obtain key questions where e: "e = (key, questions)" by (cases e)
  from f have mem: "e \<in> set fallbackQuizzes" by (metis find_Some_iff nth_mem)
  from f e have inc: "includesStr l key" by (auto simp: find_Some_iff)
  from fallbackQuizzes_keys_are_keywords mem e
  obtain kws where kws: "map_of skillMatches key = Some kws" and k: "key \<in> set kws"
    unfolding list_all_iff by (fastforce split: option.splits)
  from kws have entry: "(key, kws) \<in> set skillMatches" by (rule map_of_SomeD)
  from k inc have "find (\<lambda>keyword. includesStr l keyword) kws \<noteq> None"
    by (auto simp: find_None_iff)
  then obtain kw where "find (\<lambda>keyword. includesStr l keyword) kws = Some kw" by blast
  with entry have "\<lparr>quizKey = key, keyword = kw, length' = length kw\<rparr>
      \<in> set (collectMatches l skillMatches)"
    unfolding in_collectMatches by blast
  with assms show False by simp
qed

lemma getFallbackQuiz_unmatched:
  assumes "getProperty skillMatches (toLowerCase T) = Undefined"
    and "collectMatches (toLowerCase T) skillMatches = []"
  shows "getFallbackQuiz shuffle T = Found (generateRandomQuestions shuffle T)"
  using assms older_loop_unreachable [OF assms(2)]
  by (simp add: getFallbackQuiz_def Let_def sortMatches_def)

lemma domains_order:
  "map fst domains = [''technical'', ''creative'', ''business'', ''science'', ''general'']"
  by (simp add: domains_def)

lemma detectDomain_first:
  assumes "i < length domains"
    and "list_ex (\<lambda>keyword. includesStr l keyword) (snd (domains ! i))"
    and "\<forall>j<i. \<not> list_ex (\<lambda>keyword. includesStr l keyword) (snd (domains ! j))"
  shows "detectDomain l = fst (domains ! i)"
proof -
  have "find (\<lambda>(domain, keywords). list_ex (\<lambda>keyword. includesStr l keyword) keywords) domains
        = Some (domains ! i)"
    unfolding find_Some_iff using assms by (auto simp: case_prod_beta)
  then show ?thesis by (simp add: detectDomain_def case_prod_beta)
qed

lemma detectDomain_default:
  assumes "\<forall>i<length domains. \<not> list_ex (\<lambda>keyword. includesStr l keyword) (snd (domains ! i))"
  shows "detectDomain l = ''general''"
proof -
  have "find (\<lambda>(domain, keywords). list_ex (\<lambda>keyword. includesStr l keyword) keywords) domains
        = None"
    unfolding find_None_iff using assms by (auto simp: in_set_conv_nth case_prod_beta)
  then show ?thesis by (simp add: detectDomain_def)
qed

lemma detectDomain_in_domains: "detectDomain l \<in> fst ` set domains"
proof (cases "find (\<lambda>(domain, keywords). list_ex (\<lambda>keyword. includesStr l keyword) keywords) domains")
  case None
  then show ?thesis by (simp add: detectDomain_def domains_def)
next
  case (Some e)
  then have "e \<in> set domains" by (metis find_Some_iff nth_mem)
  with Some show ?thesis by (auto simp: detectDomain_def case_prod_beta)
qed

lemma questionTemplates_keys: "map fst (questionTemplates skillName) = map fst domains"
  by (simp add: questionTemplates_def domains_def)

lemma generateRandomQuestions_pool:
  "\<exists>pool. map_of (questionTemplates T) (detectDomain (toLowerCase T)) = Some pool \<and>
     length pool = 5 \<and>
     generateRandomQuestions shuffle T = take 5 (shuffle pool)"
proof -
  have "detectDomain (toLowerCase T) \<in> fst ` set (questionTemplates T)"
    using detectDomain_in_domains [of "toLowerCase T"] questionTemplates_keys [of T]
    by (metis set_map)
  then obtain pool where p: "map_of (questionTemplates T) (detectDomain (toLowerCase T)) = Some pool"
    by (metis map_of_eq_None_iff not_Some_eq)
  then have "(detectDomain (toLowerCase T), pool) \<in> set (questionTemplates T)"
    by (rule map_of_SomeD)
  from questionTemplates_entry_shape [OF this] p show ?thesis
    by (simp add: generateRandomQuestions_def Let_def getProperty_def)
qed

text \<open>
  The domains are scanned in the order technical, creative, business, science, general; the
  first one with a keyword that occurs in the topic is the detected domain, and
  \<^verbatim>\<open>general\<close> is detected when no keyword of any list occurs. The questions are the
  detected domain's pool, shuffled; with no keyword occurring they are the general pool.
  A topic for which the test \<^verbatim>\<open>skillMatches[lowerSkillName]\<close> of \<open>getFallbackQuiz\<close> fails
  and which has no partial match gets these questions.
\<close>

lemma domain_classification:
  assumes perm: "\<And>qs. mset (shuffle qs) = mset qs"
  shows "map fst domains = [''technical'', ''creative'', ''business'', ''science'', ''general''] \<and>
    (\<forall>i<length domains.
        list_ex (\<lambda>keyword. includesStr (toLowerCase T) keyword) (snd (domains ! i)) \<and>
        (\<forall>j<i. \<not> list_ex (\<lambda>keyword. includesStr (toLowerCase T) keyword) (snd (domains ! j)))
        \<longrightarrow> detectDomain (toLowerCase T) = fst (domains ! i)) \<and>
    ((\<forall>(domain, keywords) \<in> set domains.
         \<forall>keyword \<in> set keywords. \<not> includesStr (toLowerCase T) keyword)
       \<longrightarrow> detectDomain (toLowerCase T) = ''general'' \<and>
           generateRandomQuestions shuffle T = shuffle (questionTemplates_general T) \<and>
           mset (generateRandomQuestions shuffle T) = mset (questionTemplates_general T)) \<and>
    (\<exists>pool. map_of (questionTemplates T) (detectDomain (toLowerCase T)) = Some pool \<and>
        generateRandomQuestions shuffle T = shuffle pool \<and>
        mset (generateRandomQuestions shuffle T) = mset pool) \<and>
    (getProperty skillMatches (toLowerCase T) = Undefined \<and>
     collectMatches (toLowerCase T) skillMatches = []
       \<longrightarrow> getFallbackQuiz shuffle T = Found (generateRandomQuestions shuffle T))"
proof -
  let ?l = "toLowerCase T"
  from generateRandomQuestions_pool [of T shuffle]
  obtain pool where p: "map_of (questionTemplates T) (detectDomain ?l) = Some pool"
    and len: "length pool = 5"
    and g: "generateRandomQuestions shuffle T = take 5 (shuffle pool)" by blast
  from perm [of pool] have "length (shuffle pool) = length pool" by (rule mset_eq_length)
  with len g have g': "generateRandomQuestions shuffle T = shuffle pool" by simp
  have pool: "\<exists>pool. map_of (questionTemplates T) (detectDomain ?l) = Some pool \<and>
        generateRandomQuestions shuffle T = shuffle pool \<and>
        mset (generateRandomQuestions shuffle T) = mset pool"
    using p g' perm by simp
  have first: "\<forall>i<length domains.
        list_ex (\<lambda>keyword. includesStr ?l keyword) (snd (domains ! i)) \<and>
        (\<forall>j<i. \<not> list_ex (\<lambda>keyword. includesStr ?l keyword) (snd (domains ! j)))
        \<longrightarrow> detectDomain ?l = fst (domains ! i)"
    using detectDomain_first by blast
  have default: "detectDomain ?l = ''general'' \<and>
           generateRandomQuestions shuffle T = shuffle (questionTemplates_general T) \<and>
           mset (generateRandomQuestions shuffle T) = mset (questionTemplates_general T)"
    if none: "\<forall>(domain, keywords) \<in> set domains.
         \<forall>keyword \<in> set keywords. \<not> includesStr ?l keyword"
  proof -
    have "\<forall>i<length domains. \<not> list_ex (\<lambda>keyword. includesStr ?l keyword) (snd (domains ! i))"
    proof (intro allI impI)
      fix i assume "i < length domains"
      then have "domains ! i \<in> set domains" by (rule nth_mem)
      with none show "\<not> list_ex (\<lambda>keyword. includesStr ?l keyword) (snd (domains ! i))"
        by (auto simp: list_ex_iff case_prod_beta)
    qed
    then have d: "detectDomain ?l = ''general''" by (rule detectDomain_default)
    with p have "pool = questionTemplates_general T"
      by (simp add: questionTemplates_def)
    with d g' perm show ?thesis by simp
  qed
  have dispatch: "getFallbackQuiz shuffle T = Found (generateRandomQuestions shuffle T)"
    if "getProperty skillMatches ?l = Undefined \<and> collectMatches ?l skillMatches = []"
    using that getFallbackQuiz_unmatched by blast
  from domains_order pool first default dispatch show ?thesis by blast
qed

lemma lower_poetry: "toLowerCase ''Poetry'' = ''poetry''"
  by (simp add: toLowerCase_def lowerChar_def upperLetters_def lowerLetters_def)

text \<open>
  The lemma at the topic \<^verbatim>\<open>Poetry\<close>, which no keyword matches, with list reversal as
  the shuffle; and at \<^verbatim>\<open>art of programming\<close>, where a creative keyword occurs as well and
  the technical domain wins.
\<close>

lemma domain_classification_poetry:
  "getProperty skillMatches (toLowerCase ''Poetry'') = Undefined \<and>
   collectMatches (toLowerCase ''Poetry'') skillMatches = [] \<and>
   detectDomain (toLowerCase ''Poetry'') = ''general'' \<and>
   getFallbackQuiz rev ''Poetry'' = Found (rev (questionTemplates_general ''Poetry'')) \<and>
   list_ex (\<lambda>keyword. includesStr ''art of programming'' keyword) (snd (domains ! 1)) \<and>
   detectDomain (toLowerCase ''art of programming'') = ''technical''"
proof -
  have perm: "\<And>qs::QuizQuestion list. mset (rev qs) = mset qs" by simp
  have u: "getProperty skillMatches (toLowerCase ''Poetry'') = Undefined"
    unfolding lower_poetry by (simp add: getProperty_def skillMatches_def objectPrototype_def)
  have c: "collectMatches (toLowerCase ''Poetry'') skillMatches = []"
    unfolding lower_poetry by (simp add: skillMatches_def)
  have n: "\<forall>(domain, keywords) \<in> set domains.
         \<forall>keyword \<in> set keywords. \<not> includesStr (toLowerCase ''Poetry'') keyword"
    unfolding lower_poetry by (simp add: domains_def)
  have l: "toLowerCase ''art of programming'' = ''art of programming''"
    by (simp add: toLowerCase_def lowerChar_def upperLetters_def lowerLetters_def)
  have a0: "list_ex (\<lambda>keyword. includesStr (toLowerCase ''art of programming'') keyword) (snd (domains ! 0))"
    unfolding l by (simp add: domains_def)
  have a1: "list_ex (\<lambda>keyword. includesStr ''art of programming'' keyword) (snd (domains ! 1))"
    by (simp add: domains_def)
  have len: "0 < length domains" by (simp add: domains_def)
  have t: "fst (domains ! 0) = ''technical''" by (simp add: domains_def)
  from domain_classification [of rev "''Poetry''", OF perm] u c n
  have "detectDomain (toLowerCase ''Poetry'') = ''general'' \<and>
     getFallbackQuiz rev ''Poetry'' = Found (rev (questionTemplates_general ''Poetry''))"
    by simp
  moreover from domain_classification [of rev "''art of programming''", OF perm] a0 len t
  have "detectDomain (toLowerCase ''art of programming'') = ''technical''"
    by force
  ultimately show ?thesis using u c a1 by simp
qed

text \<open>
  Claim C8: a topic that matches no canonical key is classified into a domain, and one that
  matches no domain keyword either receives questions drawn from the general pool. The code
  misses it at the topic \<^verbatim>\<open>constructor\<close> (and at \<^verbatim>\<open>__proto__\<close>). The topic is no key of
  \<open>skillMatches\<close>, none of the aliases occurs in it and no domain keyword occurs in it, so
  it is classified as \<^verbatim>\<open>general\<close> and \<open>generateRandomQuestions\<close> would draw from the general
  pool. But \<open>getFallbackQuiz\<close> never gets there: \<^verbatim>\<open>skillMatches[lowerSkillName]\<close> reads the
  member inherited from \<^verbatim>\<open>Object.prototype\<close>, and the exact-match branch returns the
  inherited member of \<open>fallbackQuizzes\<close>, which is no list of questions.
\<close>

theorem unmatched_topic_constructor:
  "map_of skillMatches (toLowerCase ''constructor'') = None \<and>
   collectMatches (toLowerCase ''constructor'') skillMatches = [] \<and>
   list_all (\<lambda>(domain, keywords).
       list_all (\<lambda>keyword. \<not> includesStr (toLowerCase ''constructor'') keyword) keywords) domains \<and>
   detectDomain (toLowerCase ''constructor'') = ''general'' \<and>
   generateRandomQuestions shuffle ''constructor'' =
     take 5 (shuffle (questionTemplates_general ''constructor'')) \<and>
   getFallbackQuiz shuffle ''constructor'' = Inherited ''constructor'' \<and>
   getFallbackQuiz shuffle ''constructor'' \<noteq> Found (generateRandomQuestions shuffle ''constructor'')"
proof -
  have l: "toLowerCase ''constructor'' = ''constructor''"
    by (simp add: toLowerCase_def lowerChar_def upperLetters_def lowerLetters_def)
  have k: "map_of skillMatches (toLowerCase ''constructor'') = None"
    unfolding l by (simp add: skillMatches_def)
  have c: "collectMatches (toLowerCase ''constructor'') skillMatches = []"
    unfolding l by (simp add: skillMatches_def)
  have n: "list_all (\<lambda>(domain, keywords).
       list_all (\<lambda>keyword. \<not> includesStr (toLowerCase ''constructor'') keyword) keywords) domains"
    unfolding l by (simp add: domains_def)
  have d: "detectDomain (toLowerCase ''constructor'') = ''general''"
    unfolding l by (simp add: detectDomain_def domains_def)
  have g: "generateRandomQuestions shuffle ''constructor'' =
     take 5 (shuffle (questionTemplates_general ''constructor''))"
    unfolding generateRandomQuestions_def Let_def d
    by (simp add: getProperty_def questionTemplates_def)
  have f: "getFallbackQuiz shuffle ''constructor'' = Inherited ''constructor''"
    unfolding getFallbackQuiz_def Let_def l
    by (simp add: getProperty_def skillMatches_def fallbackQuizzes_def objectPrototype_def
        orElse_def)
  from f have x: "getFallbackQuiz shuffle ''constructor'' \<noteq>
      Found (generateRandomQuestions shuffle ''constructor'')"
    by simp
  from k c n d g f x show ?thesis by (intro conjI)
qed

section \<open>Rounding to binary64\<close>








lemma round64_zero [simp]: "round64 0 = 0"
  by (simp add: round64_def)























section \<open>Properties of the retry wrapper\<close>

lemma retryLoop_all_transient:
  assumes "\<forall>n. attempt \<le> n \<and> n \<le> maxRetries \<longrightarrow> (\<exists>e. operation n = Inl e \<and> \<not> clientError e)"
    and "attempt \<le> maxRetries"
  shows "outcome (retryLoop operation random maxRetries baseDelay attempt) = operation maxRetries \<and>
         invocations (retryLoop operation random maxRetries baseDelay attempt) =
           maxRetries + 1 - attempt \<and>
         length (delays (retryLoop operation random maxRetries baseDelay attempt)) =
           maxRetries - attempt"
  using assms
proof (induction "maxRetries - attempt" arbitrary: attempt)
  case 0
  then have eq: "attempt = maxRetries" by simp
  from "0.prems"(1) eq obtain e where "operation maxRetries = Inl e" by blast
  with eq show ?case by (simp add: retryLoop.simps [of _ _ _ _ maxRetries])
next
  case (Suc k)
  then have lt: "attempt < maxRetries" by simp
  from Suc.prems(1) Suc.prems(2) obtain e where e: "operation attempt = Inl e" "\<not> clientError e"
    by blast
  have IH: "outcome (retryLoop operation random maxRetries baseDelay (attempt + 1)) =
          operation maxRetries \<and>
        invocations (retryLoop operation random maxRetries baseDelay (attempt + 1)) =
          maxRetries + 1 - (attempt + 1) \<and>
        length (delays (retryLoop operation random maxRetries baseDelay (attempt + 1))) =
          maxRetries - (attempt + 1)"
  proof (rule Suc.hyps(1))
    show "k = maxRetries - (attempt + 1)" using Suc.hyps(2) by simp
    show "\<forall>n. attempt + 1 \<le> n \<and> n \<le> maxRetries \<longrightarrow>
        (\<exists>e. operation n = Inl e \<and> \<not> clientError e)" using Suc.prems(1) by simp
    show "attempt + 1 \<le> maxRetries" using lt by simp
  qed
  from lt e IH show ?case
    by (simp add: retryLoop.simps [of _ _ _ _ attempt] Let_def) arith
qed


lemma retryLoop_fails:
  assumes "\<forall>n. attempt \<le> n \<and> n \<le> maxRetries \<longrightarrow> (\<exists>e. operation n = Inl e)"
  shows "\<exists>e. outcome (retryLoop operation random maxRetries baseDelay attempt) = Inl e"
  using assms
proof (induction "maxRetries + 1 - attempt" arbitrary: attempt)
  case 0
  then have "\<not> attempt \<le> maxRetries" by simp
  then show ?case by (simp add: retryLoop.simps [of _ _ _ _ attempt])
next
  case (Suc k)
  then have le: "attempt \<le> maxRetries" by simp
  with Suc.prems obtain e where e: "operation attempt = Inl e" by blast
  have IH: "\<exists>e. outcome (retryLoop operation random maxRetries baseDelay (attempt + 1)) = Inl e"
  proof (rule Suc.hyps(1))
    show "k = maxRetries + 1 - (attempt + 1)" using Suc.hyps(2) by simp
    show "\<forall>n. attempt + 1 \<le> n \<and> n \<le> maxRetries \<longrightarrow> (\<exists>e. operation n = Inl e)"
      using Suc.prems by simp
  qed
  from le e IH show ?case
    by (simp add: retryLoop.simps [of _ _ _ _ attempt] Let_def)
qed

lemma retryLoop_success:
  assumes "attempt \<le> k" and "k \<le> maxRetries"
    and "\<forall>n. attempt \<le> n \<and> n < k \<longrightarrow> (\<exists>e. operation n = Inl e \<and> \<not> clientError e)"
    and "operation k = Inr x"
  shows "outcome (retryLoop operation random maxRetries baseDelay attempt) = Inr x \<and>
         invocations (retryLoop operation random maxRetries baseDelay attempt) = k + 1 - attempt \<and>
         length (delays (retryLoop operation random maxRetries baseDelay attempt)) = k - attempt"
  using assms
proof (induction "k - attempt" arbitrary: attempt)
  case 0
  then have eq: "attempt = k" by simp
  with "0.prems"(2) "0.prems"(4) show ?case
    by (simp add: retryLoop.simps [of _ _ _ _ k])
next
  case (Suc d)
  then have lt: "attempt < k" by simp
  with Suc.prems(3) obtain e where e: "operation attempt = Inl e" "\<not> clientError e"
    by blast
  have IH: "outcome (retryLoop operation random maxRetries baseDelay (attempt + 1)) = Inr x \<and>
        invocations (retryLoop operation random maxRetries baseDelay (attempt + 1)) =
          k + 1 - (attempt + 1) \<and>
        length (delays (retryLoop operation random maxRetries baseDelay (attempt + 1))) =
          k - (attempt + 1)"
  proof (rule Suc.hyps(1))
    show "d = k - (attempt + 1)" using Suc.hyps(2) by simp
    show "attempt + 1 \<le> k" using lt by simp
    show "k \<le> maxRetries" by (rule Suc.prems(2))
    show "\<forall>n. attempt + 1 \<le> n \<and> n < k \<longrightarrow> (\<exists>e. operation n = Inl e \<and> \<not> clientError e)"
      using Suc.prems(3) by simp
    show "operation k = Inr x" by (rule Suc.prems(4))
  qed
  from lt Suc.prems(2) have ne: "attempt \<noteq> maxRetries" "attempt \<le> maxRetries" by simp_all
  from lt ne e IH show ?case
    by (simp add: retryLoop.simps [of _ _ _ _ attempt] Let_def) arith
qed

text \<open>
  Claim C3. An operation whose invocations all throw an error that is not a client error is
  invoked \<open>maxRetries\<close> times, with \<open>maxRetries - 1\<close> delays in between, and the wrapper
  throws what the last invocation threw; with \<open>maxRetries = 3\<close> these are three invocations
  and the error of the third.
\<close>

theorem retry_exhaustion:
  assumes "\<forall>n. 1 \<le> n \<and> n \<le> maxRetries \<longrightarrow> (\<exists>e. operation n = Inl e \<and> \<not> clientError e)"
    and "1 \<le> maxRetries"
  shows "outcome (retryWithBackoff operation random maxRetries baseDelay) = operation maxRetries \<and>
         invocations (retryWithBackoff operation random maxRetries baseDelay) = maxRetries \<and>
         length (delays (retryWithBackoff operation random maxRetries baseDelay)) = maxRetries - 1"
  using retryLoop_all_transient [OF assms, of random baseDelay]
  by (simp add: retryWithBackoff_def)

text \<open>The theorem at three attempts of an operation whose \<open>n\<close>-th invocation throws \<^verbatim>\<open>attempt n\<close>.\<close>

theorem retry_exhaustion_witness:
  "outcome (retryWithBackoff (\<lambda>n. Inl (Error (''attempt '' @ [''0123'' ! n])) :: js_error + unit)
      (\<lambda>n. 1 / 2) 3 10) = Inl (Error ''attempt 3'') \<and>
   invocations (retryWithBackoff (\<lambda>n. Inl (Error (''attempt '' @ [''0123'' ! n])) :: js_error + unit)
      (\<lambda>n. 1 / 2) 3 10) = 3"
  using retry_exhaustion [of 3 "\<lambda>n. Inl (Error (''attempt '' @ [''0123'' ! n])) :: js_error + unit"
      "\<lambda>n. 1 / 2" 10]
  by (simp add: clientError_def Error_def)

text \<open>
  Claim C4. When the first invocation throws an error whose \<^verbatim>\<open>error.code\<close> is 400 or 401,
  the wrapper throws that error after this one invocation, and waits for no delay.
\<close>

theorem client_error_rethrown_at_once:
  assumes "operation 1 = Inl e" and "clientError e" and "1 \<le> maxRetries"
  shows "retryWithBackoff operation random maxRetries baseDelay =
         \<lparr>outcome = Inl e, invocations = 1, delays = []\<rparr>"
  using assms by (simp add: retryWithBackoff_def retryLoop.simps [of _ _ _ _ "Suc 0"])

text \<open>The theorem at an operation that throws an error with code 401.\<close>

theorem client_error_rethrown_at_once_witness:
  "clientError \<lparr>code = Some 401, message = Some ''bad key'', status = None\<rparr> \<and>
   retryWithBackoff
     (\<lambda>n. Inl \<lparr>code = Some 401, message = Some ''bad key'', status = None\<rparr> :: js_error + unit)
     (\<lambda>n. 1 / 2) 3 10 =
   \<lparr>outcome = Inl \<lparr>code = Some 401, message = Some ''bad key'', status = None\<rparr>,
    invocations = 1, delays = []\<rparr>"
  using client_error_rethrown_at_once
    [of "\<lambda>n. Inl \<lparr>code = Some 401, message = Some ''bad key'', status = None\<rparr> :: js_error + unit"
        "\<lparr>code = Some 401, message = Some ''bad key'', status = None\<rparr>" 3 "\<lambda>n. 1 / 2" 10]
  by (simp add: clientError_def)




section \<open>Properties of the operations\<close>

subsection \<open>Thrown errors and checked shapes\<close>

lemma andThen_Inr_iff: "andThen m f = Inr y \<longleftrightarrow> (\<exists>x. m = Inr x \<and> f x = Inr y)"
  by (cases m) auto

lemma tryCatch_rethrow_Inr_iff: "tryCatch m (\<lambda>error. Inl (h error)) = Inr y \<longleftrightarrow> m = Inr y"
  by (cases m) auto

lemma if_Inl_Inr_iff: "(if c then Inl a else m) = Inr y \<longleftrightarrow> \<not> c \<and> m = Inr y"
  by simp

lemma truthy_string: "truthy v \<and> isString v \<longleftrightarrow> (\<exists>s. v = Some (JString s) \<and> s \<noteq> [])"
  by (cases v rule: isString.cases) auto

lemma isArray_iff: "isArray v \<longleftrightarrow> (\<exists>xs. v = Some (JArray xs))"
  by (cases v rule: isArray.cases) auto

lemma truthy_array: "\<not> (\<not> truthy v \<or> \<not> isArray v) \<longleftrightarrow> (\<exists>xs. v = Some (JArray xs))"
  by (cases v rule: isArray.cases) auto

lemma not_string_field: "\<not> (\<not> truthy v \<or> \<not> isString v) \<longleftrightarrow> (\<exists>s. v = Some (JString s) \<and> s \<noteq> [])"
  using truthy_string [of v] by blast

lemma array_of_length:
  "(case v of
      Some (JArray xs) \<Rightarrow> if length xs \<noteq> n then Inl (a xs) else f xs
    | _ \<Rightarrow> Inl b) = Inr y \<longleftrightarrow> (\<exists>xs. v = Some (JArray xs) \<and> length xs = n \<and> f xs = Inr y)"
  by (cases v rule: isArray.cases) auto

lemma getMember_Some:
  "getMember (Some step) name = Inr (Some x) \<longleftrightarrow> (\<exists>kvs. step = JObject kvs \<and> map_of kvs name = Some x)"
  by (cases step) auto

lemma validateStep_shape:
  assumes "validateStep step index = Inr ()"
  shows "wellFormedStep step"
proof -
  from assms obtain ts ds us rs where
    t: "getMember (Some step) ''title'' = Inr (Some (JString ts))" "ts \<noteq> []" and
    d: "getMember (Some step) ''description'' = Inr (Some (JString ds))" "ds \<noteq> []" and
    u: "getMember (Some step) ''duration'' = Inr (Some (JString us))" "us \<noteq> []" and
    r: "getMember (Some step) ''resources'' = Inr (Some (JArray rs))" "length rs = 3"
    unfolding validateStep_def
    by (simp only: andThen_Inr_iff if_Inl_Inr_iff not_string_field array_of_length) blast
  from t(1) obtain kvs where kvs: "step = JObject kvs"
    unfolding getMember_Some by blast
  from t d u r show ?thesis
    unfolding kvs by simp
qed

lemma validateSteps_shape:
  assumes "validateSteps steps index = Inr ()"
  shows "list_all wellFormedStep steps"
  using assms
proof (induction steps arbitrary: index)
  case Nil
  show ?case by simp
next
  case (Cons step steps)
  from Cons.prems have 1: "validateStep step index = Inr ()"
    and 2: "validateSteps steps (index + 1) = Inr ()"
    by (auto simp: andThen_Inr_iff)
  from validateStep_shape [OF 1] Cons.IH [OF 2] show ?case by simp
qed

lemma generateRoadmapMistral_checked:
  assumes "generateRoadmapMistral JSON_parse invoked = Inr result"
  shows "\<exists>steps. result = JArray steps \<and> length steps = 6 \<and> validateSteps steps 0 = Inr ()"
  using assms unfolding generateRoadmapMistral_def
  by (simp only: tryCatch_rethrow_Inr_iff andThen_Inr_iff if_Inl_Inr_iff array_of_length) auto

lemma generateRoadmapMistral_shape:
  assumes "generateRoadmapMistral JSON_parse invoked = Inr result"
  shows "\<exists>steps. result = JArray steps \<and> length steps = 6 \<and> list_all wellFormedStep steps"
proof -
  from generateRoadmapMistral_checked [OF assms] obtain steps where
    s: "result = JArray steps" "length steps = 6" "validateSteps steps 0 = Inr ()"
    by (elim exE conjE)
  from validateSteps_shape [OF s(3)] have "list_all wellFormedStep steps" .
  with s(1) s(2) show ?thesis by (intro exI conjI)
qed

lemma suggestSkillsMistral_shape:
  assumes "suggestSkillsMistral JSON_parse invoked = Inr result"
  shows "\<exists>xs. result = JArray xs \<and> length xs = 5"
  using assms unfolding suggestSkillsMistral_def
  by (simp only: tryCatch_rethrow_Inr_iff andThen_Inr_iff if_Inl_Inr_iff array_of_length) blast

lemma array_checked:
  assumes "andThen (getMember (Some parsed) name) (\<lambda>v.
              if \<not> truthy v \<or> \<not> isArray v
              then Inl a
              else (case v of Some x \<Rightarrow> Inr x | None \<Rightarrow> Inl b)) = Inr result"
  shows "\<exists>xs. result = JArray xs"
  using assms
  by (simp only: andThen_Inr_iff if_Inl_Inr_iff truthy_array) auto

lemma suggestSkillsDirect_array: "\<exists>xs. suggestSkillsDirect JSON_parse fetched = JArray xs"
proof (cases "andThen (directContent JSON_parse fetched) (\<lambda>parsed.
            andThen (getMember (Some parsed) ''skills'') (\<lambda>skills.
              if \<not> truthy skills \<or> \<not> isArray skills
              then Inl (Error ''Invalid response format'')
              else (case skills of
                      Some v \<Rightarrow> Inr v
                    | None \<Rightarrow> Inl (Error ''Invalid response format''))))")
  case (Inl error)
  then show ?thesis by (simp add: suggestSkillsDirect_def)
next
  case (Inr result)
  then obtain parsed where "andThen (getMember (Some parsed) ''skills'') (\<lambda>skills.
              if \<not> truthy skills \<or> \<not> isArray skills
              then Inl (Error ''Invalid response format'')
              else (case skills of
                      Some v \<Rightarrow> Inr v
                    | None \<Rightarrow> Inl (Error ''Invalid response format''))) = Inr result"
    unfolding andThen_Inr_iff [of "directContent JSON_parse fetched"] by blast
  from array_checked [OF this] Inr show ?thesis by (simp add: suggestSkillsDirect_def)
qed

lemma generateRoadmapDirect_array: "\<exists>xs. generateRoadmapDirect JSON_parse fetched skill = JArray xs"
proof (cases "andThen (directContent JSON_parse fetched) (\<lambda>parsed.
            andThen (getMember (Some parsed) ''roadmap'') (\<lambda>roadmap.
              if \<not> truthy roadmap \<or> \<not> isArray roadmap
              then Inl (Error ''Invalid response format'')
              else (case roadmap of
                      Some v \<Rightarrow> Inr v
                    | None \<Rightarrow> Inl (Error ''Invalid response format''))))")
  case (Inl error)
  then show ?thesis by (simp add: generateRoadmapDirect_def fallbackRoadmap_def)
next
  case (Inr result)
  then obtain parsed where "andThen (getMember (Some parsed) ''roadmap'') (\<lambda>roadmap.
              if \<not> truthy roadmap \<or> \<not> isArray roadmap
              then Inl (Error ''Invalid response format'')
              else (case roadmap of
                      Some v \<Rightarrow> Inr v
                    | None \<Rightarrow> Inl (Error ''Invalid response format''))) = Inr result"
    unfolding andThen_Inr_iff [of "directContent JSON_parse fetched"] by blast
  from array_checked [OF this] Inr show ?thesis by (simp add: generateRoadmapDirect_def)
qed

lemma generateQuiz_first_attempt:
  assumes "generateQuizInternal e JSON_parse (remote 1) = Inr quiz"
  shows "generateQuiz e JSON_parse remote random shuffle skillName = Generated quiz"
  using assms
  by (simp add: generateQuiz_def retryWithBackoff_def retryLoop.simps [of _ _ _ _ "Suc 0"])

lemma generateQuiz_client_error:
  assumes "generateQuizInternal e JSON_parse (remote 1) = Inl err" and "clientError err"
  shows "generateQuiz e JSON_parse remote random shuffle skillName =
         Fallback (getFallbackQuiz shuffle skillName)"
  using assms
  by (simp add: generateQuiz_def retryWithBackoff_def retryLoop.simps [of _ _ _ _ "Suc 0"])

lemma mistral_rethrows:
  "(\<exists>x. tryCatch m (\<lambda>error. Inl (Error (prefix @ messageText error))) = Inr x) \<or>
   (\<exists>msg. tryCatch m (\<lambda>error. Inl (Error (prefix @ messageText error))) = Inl (Error (prefix @ msg)))"
  by (cases m) auto

lemma generateQuiz_fallback:
  assumes "\<forall>n. 1 \<le> n \<and> n \<le> 3 \<longrightarrow> (\<exists>err. generateQuizInternal e JSON_parse (remote n) = Inl err)"
  shows "generateQuiz e JSON_parse remote random shuffle skillName =
         Fallback (getFallbackQuiz shuffle skillName)"
proof -
  from retryLoop_fails [of 1 3 "\<lambda>n. generateQuizInternal e JSON_parse (remote n)" random 1000] assms
  obtain err where "outcome (retryWithBackoff (\<lambda>n. generateQuizInternal e JSON_parse (remote n))
                     random 3 1000) = Inl err"
    unfolding retryWithBackoff_def by auto
  then show ?thesis by (simp add: generateQuiz_def)
qed

lemma getAIClient_missing:
  assumes "API_KEY e = None \<or> API_KEY e = Some []"
    and "GEMINI_API_KEY e = None \<or> GEMINI_API_KEY e = Some []"
  shows "getAIClient e = Inl (Error ''API Key not found'')"
  using assms by (auto simp: getAIClient_def)

lemma fallbackRoadmap_shape:
  "\<exists>steps. fallbackRoadmap skill = JArray steps \<and> length steps = 6 \<and> list_all wellFormedStep steps"
  by (simp add: fallbackRoadmap_def roadmapStep_def)

lemma gemini_returns_decoded:
  assumes "getAIClient e = Inr ai" and "t \<noteq> []" and "JSON_parse t = Inr decoded"
  shows "generateQuizInternal e JSON_parse (Response (Some t)) = Inr decoded \<and>
         generateRoadmap e JSON_parse (Response (Some t)) = Inr decoded \<and>
         analyzeMatch e JSON_parse (Response (Some t)) = Inr decoded"
  using assms
  by (simp add: generateQuizInternal_def generateRoadmap_def analyzeMatch_def parseText_def)

lemma direct_checked_cases:
  "(case andThen m (\<lambda>parsed.
            andThen (getMember (Some parsed) name) (\<lambda>v.
              if \<not> truthy v \<or> \<not> isArray v
              then Inl a
              else (case v of Some x \<Rightarrow> Inr x | None \<Rightarrow> Inl b))) of
       Inr r \<Rightarrow> r
     | Inl error \<Rightarrow> fb) = fb \<or>
   (\<exists>parsed xs. m = Inr parsed \<and> getMember (Some parsed) name = Inr (Some (JArray xs)) \<and>
      (case andThen m (\<lambda>parsed.
            andThen (getMember (Some parsed) name) (\<lambda>v.
              if \<not> truthy v \<or> \<not> isArray v
              then Inl a
              else (case v of Some x \<Rightarrow> Inr x | None \<Rightarrow> Inl b))) of
       Inr r \<Rightarrow> r
     | Inl error \<Rightarrow> fb) = JArray xs)"
proof (cases m)
  case (Inl error)
  then show ?thesis by simp
next
  case (Inr parsed)
  show ?thesis
  proof (cases "getMember (Some parsed) name")
    case (Inl error)
    with Inr show ?thesis by simp
  next
    case v: (Inr v)
    show ?thesis
    proof (cases "\<exists>xs. v = Some (JArray xs)")
      case True
      then obtain xs where "v = Some (JArray xs)" by blast
      with Inr v show ?thesis by simp
    next
      case False
      then have "\<not> truthy v \<or> \<not> isArray v" using truthy_array [of v] by blast
      with Inr v show ?thesis by simp
    qed
  qed
qed

lemma suggestSkillsDirect_cases:
  "suggestSkillsDirect JSON_parse fetched =
     JArray [JString ''React'', JString ''Node.js'', JString ''TypeScript'',
             JString ''Docker'', JString ''AWS''] \<or>
   (\<exists>parsed xs. directContent JSON_parse fetched = Inr parsed \<and>
      getMember (Some parsed) ''skills'' = Inr (Some (JArray xs)) \<and>
      suggestSkillsDirect JSON_parse fetched = JArray xs)"
  unfolding suggestSkillsDirect_def by (rule direct_checked_cases)

lemma generateRoadmapDirect_cases:
  "generateRoadmapDirect JSON_parse fetched skill = fallbackRoadmap skill \<or>
   (\<exists>parsed xs. directContent JSON_parse fetched = Inr parsed \<and>
      getMember (Some parsed) ''roadmap'' = Inr (Some (JArray xs)) \<and>
      generateRoadmapDirect JSON_parse fetched skill = JArray xs)"
  unfolding generateRoadmapDirect_def by (rule direct_checked_cases)

subsection \<open>Failure of the remote call\<close>

text \<open>
  Claim C2, as the code has it. Let an API key be present and the Gemini call fail: the
  request is rejected with \<open>err\<close>, or the text of the response does not decode. Then
  \<open>suggestSkills\<close> returns the default skills that are not among the current skills and
  goals, and \<open>analyzeMatch\<close> returns the neutral result with score 50 and no common
  interests; \<open>generateRoadmap\<close> throws \<open>err\<close> again. \<open>generateQuiz\<close> returns the fallback quiz
  when every attempt fails, and when the first attempt fails with a client error. The two
  operations of the Mistral service throw every failure, of the call or of the validation,
  as a new error whose message starts with \<^verbatim>\<open>Failed to suggest skills: \<close> or
  \<^verbatim>\<open>Failed to generate roadmap: \<close>. The two direct Mistral operations return their fixed
  fallback on every failure: what they return is the fallback, or the array found under
  \<^verbatim>\<open>skills\<close> or \<^verbatim>\<open>roadmap\<close> in the decoded content.
\<close>

theorem remote_failure_handling:
  assumes key: "getAIClient e = Inr ai"
    and failed: "reply = Rejects err \<or>
                 (\<exists>t. reply = Response (Some t) \<and> t \<noteq> [] \<and> JSON_parse t = Inl err)"
  shows
   "((\<forall>n. 1 \<le> n \<and> n \<le> 3 \<longrightarrow> (\<exists>err'. generateQuizInternal e JSON_parse (remote n) = Inl err'))
       \<longrightarrow> generateQuiz e JSON_parse remote random shuffle skillName =
             Fallback (getFallbackQuiz shuffle skillName)) \<and>
    ((\<exists>err'. generateQuizInternal e JSON_parse (remote 1) = Inl err' \<and> clientError err')
       \<longrightarrow> generateQuiz e JSON_parse remote random shuffle skillName =
             Fallback (getFallbackQuiz shuffle skillName)) \<and>
    suggestSkills e JSON_parse reply currentSkills currentGoals =
      Inr (JArray (map JString
        (filter (\<lambda>s. s \<notin> set currentSkills \<and> s \<notin> set currentGoals)
           [''Machine Learning'', ''Cloud Computing'', ''Cybersecurity'', ''DevOps'',
            ''Blockchain'']))) \<and>
    analyzeMatch e JSON_parse reply =
      Inr (JObject [(''score'', JNumber 50),
                    (''reasoning'', JString ''AI analysis unavailable.''),
                    (''commonInterests'', JArray [])]) \<and>
    generateRoadmap e JSON_parse reply = Inl err \<and>
    suggestSkillsMistral JSON_parse (Inl err) =
      Inl (Error (''Failed to suggest skills: '' @ messageText err)) \<and>
    generateRoadmapMistral JSON_parse (Inl err) =
      Inl (Error (''Failed to generate roadmap: '' @ messageText err)) \<and>
    ((\<exists>result. suggestSkillsMistral JSON_parse invoked = Inr result) \<or>
     (\<exists>msg. suggestSkillsMistral JSON_parse invoked =
              Inl (Error (''Failed to suggest skills: '' @ msg)))) \<and>
    ((\<exists>result. generateRoadmapMistral JSON_parse invoked = Inr result) \<or>
     (\<exists>msg. generateRoadmapMistral JSON_parse invoked =
              Inl (Error (''Failed to generate roadmap: '' @ msg)))) \<and>
    (suggestSkillsDirect JSON_parse fetched =
       JArray [JString ''React'', JString ''Node.js'', JString ''TypeScript'',
               JString ''Docker'', JString ''AWS''] \<or>
     (\<exists>parsed xs. directContent JSON_parse fetched = Inr parsed \<and>
        getMember (Some parsed) ''skills'' = Inr (Some (JArray xs)) \<and>
        suggestSkillsDirect JSON_parse fetched = JArray xs)) \<and>
    (generateRoadmapDirect JSON_parse fetched skill = fallbackRoadmap skill \<or>
     (\<exists>parsed xs. directContent JSON_parse fetched = Inr parsed \<and>
        getMember (Some parsed) ''roadmap'' = Inr (Some (JArray xs)) \<and>
        generateRoadmapDirect JSON_parse fetched skill = JArray xs))"
proof -
  have quiz: "(\<forall>n. 1 \<le> n \<and> n \<le> 3 \<longrightarrow> (\<exists>err'. generateQuizInternal e JSON_parse (remote n) = Inl err'))
       \<longrightarrow> generateQuiz e JSON_parse remote random shuffle skillName =
             Fallback (getFallbackQuiz shuffle skillName)"
    by (intro impI) (rule generateQuiz_fallback)
  have client: "(\<exists>err'. generateQuizInternal e JSON_parse (remote 1) = Inl err' \<and> clientError err')
       \<longrightarrow> generateQuiz e JSON_parse remote random shuffle skillName =
             Fallback (getFallbackQuiz shuffle skillName)"
    using generateQuiz_client_error by blast
  from failed have body: "(case reply of
           Rejects error \<Rightarrow> Inl error
         | Response text \<Rightarrow> parseText JSON_parse text otherwise) = Inl err" for otherwise
    by (auto simp: parseText_def)
  from failed have skills: "suggestSkills e JSON_parse reply currentSkills currentGoals =
      Inr (JArray (map JString
        (filter (\<lambda>s. s \<notin> set currentSkills \<and> s \<notin> set currentGoals)
           [''Machine Learning'', ''Cloud Computing'', ''Cybersecurity'', ''DevOps'',
            ''Blockchain''])))"
    unfolding suggestSkills_def key by (elim disjE exE conjE) simp_all
  have match: "analyzeMatch e JSON_parse reply =
      Inr (JObject [(''score'', JNumber 50),
                    (''reasoning'', JString ''AI analysis unavailable.''),
                    (''commonInterests'', JArray [])])"
    unfolding analyzeMatch_def key by (simp add: body)
  have roadmap: "generateRoadmap e JSON_parse reply = Inl err"
    unfolding generateRoadmap_def key by (simp add: body)
  have m1: "suggestSkillsMistral JSON_parse (Inl err) =
      Inl (Error (''Failed to suggest skills: '' @ messageText err))"
    by (simp add: suggestSkillsMistral_def)
  have m2: "generateRoadmapMistral JSON_parse (Inl err) =
      Inl (Error (''Failed to generate roadmap: '' @ messageText err))"
    by (simp add: generateRoadmapMistral_def)
  have m3: "(\<exists>result. suggestSkillsMistral JSON_parse invoked = Inr result) \<or>
     (\<exists>msg. suggestSkillsMistral JSON_parse invoked =
              Inl (Error (''Failed to suggest skills: '' @ msg)))"
    unfolding suggestSkillsMistral_def by (rule mistral_rethrows)
  have m4: "(\<exists>result. generateRoadmapMistral JSON_parse invoked = Inr result) \<or>
     (\<exists>msg. generateRoadmapMistral JSON_parse invoked =
              Inl (Error (''Failed to generate roadmap: '' @ msg)))"
    unfolding generateRoadmapMistral_def by (rule mistral_rethrows)
  from quiz client skills match roadmap m1 m2 m3 m4
    suggestSkillsDirect_cases generateRoadmapDirect_cases
  show ?thesis by (intro conjI)
qed

text \<open>The theorem at a request that is rejected with a 503 error, with a key present.\<close>

theorem remote_failure_handling_witness:
  "getAIClient \<lparr>API_KEY = Some ''k'', GEMINI_API_KEY = None\<rparr> = Inr ''k'' \<and>
   analyzeMatch \<lparr>API_KEY = Some ''k'', GEMINI_API_KEY = None\<rparr> (\<lambda>t. Inr JNull)
     (Rejects (Error ''503 Service Unavailable'')) =
     Inr (JObject [(''score'', JNumber 50),
                   (''reasoning'', JString ''AI analysis unavailable.''),
                   (''commonInterests'', JArray [])]) \<and>
   suggestSkills \<lparr>API_KEY = Some ''k'', GEMINI_API_KEY = None\<rparr> (\<lambda>t. Inr JNull)
     (Rejects (Error ''503 Service Unavailable'')) [''DevOps''] [] =
     Inr (JArray [JString ''Machine Learning'', JString ''Cloud Computing'',
                  JString ''Cybersecurity'', JString ''Blockchain''])"
proof -
  have key: "getAIClient \<lparr>API_KEY = Some ''k'', GEMINI_API_KEY = None\<rparr> = Inr ''k''"
    by (simp add: getAIClient_def)
  have failed: "Rejects (Error ''503 Service Unavailable'') = Rejects (Error ''503 Service Unavailable'') \<or>
     (\<exists>t. Rejects (Error ''503 Service Unavailable'') = Response (Some t) \<and> t \<noteq> [] \<and>
          (\<lambda>t. Inr JNull) t = Inl (Error ''503 Service Unavailable''))"
    by simp
  from remote_failure_handling [OF key failed, of _ _ _ _ "[''DevOps'']" "[]"] key
  show ?thesis by simp
qed

text \<open>
  The claim as stated has every roadmap and skills operation fall back. With a key present
  and the request rejected, \<open>generateRoadmap\<close> throws the error; the roadmap operation of
  the Mistral service throws, and its skills operation throws on a response with one skill.
\<close>

theorem roadmap_failure_propagates:
  "getAIClient \<lparr>API_KEY = Some ''k'', GEMINI_API_KEY = None\<rparr> = Inr ''k'' \<and>
   generateRoadmap \<lparr>API_KEY = Some ''k'', GEMINI_API_KEY = None\<rparr> (\<lambda>t. Inr JNull)
     (Rejects (Error ''503 Service Unavailable'')) = Inl (Error ''503 Service Unavailable'') \<and>
   generateRoadmapMistral (\<lambda>t. Inr JNull) (Inl (Error ''503 Service Unavailable'')) =
     Inl (Error ''Failed to generate roadmap: 503 Service Unavailable'') \<and>
   suggestSkillsMistral (\<lambda>t. Inr (JObject [(''skills'', JArray [JString ''Rust''])])) (Inr ''{}'') =
     Inl (Error ''Failed to suggest skills: Expected 5 skills, got 1'')"
  by (simp add: getAIClient_def generateRoadmap_def generateRoadmapMistral_def
      suggestSkillsMistral_def messageText_def Error_def)

lemma generateQuiz_success:
  assumes "1 \<le> k" and "k \<le> 3"
    and "\<forall>n. 1 \<le> n \<and> n < k \<longrightarrow>
           (\<exists>err. generateQuizInternal e JSON_parse (remote n) = Inl err \<and> \<not> clientError err)"
    and "generateQuizInternal e JSON_parse (remote k) = Inr quiz"
  shows "generateQuiz e JSON_parse remote random shuffle skillName = Generated quiz"
proof -
  from retryLoop_success [of 1 k 3 "\<lambda>n. generateQuizInternal e JSON_parse (remote n)" quiz
      random 1000] assms
  have "outcome (retryWithBackoff (\<lambda>n. generateQuizInternal e JSON_parse (remote n))
                     random 3 1000) = Inr quiz"
    unfolding retryWithBackoff_def by simp
  then show ?thesis by (simp add: generateQuiz_def)
qed

lemma suggestSkills_returns:
  assumes "getAIClient e = Inr ai" and "t \<noteq> []" and "JSON_parse t = Inr decoded"
    and "getMember (Some decoded) ''skills'' = Inr v"
  shows "(truthy v \<longrightarrow>
            (\<exists>x. v = Some x \<and>
               suggestSkills e JSON_parse (Response (Some t)) currentSkills currentGoals = Inr x)) \<and>
         (\<not> truthy v \<longrightarrow>
            suggestSkills e JSON_parse (Response (Some t)) currentSkills currentGoals =
              Inr (JArray []))"
proof -
  from assms
  have s: "suggestSkills e JSON_parse (Response (Some t)) currentSkills currentGoals =
      Inr (orEmptyArray v)"
    by (simp add: suggestSkills_def)
  show ?thesis
  proof (cases v)
    case None
    with s show ?thesis by (simp add: orEmptyArray_def)
  next
    case (Some x)
    with s show ?thesis by (simp add: orEmptyArray_def)
  qed
qed

lemma gemini_no_text:
  assumes "getAIClient e = Inr ai" and "responseText = None \<or> responseText = Some []"
  shows "generateQuizInternal e JSON_parse (Response responseText) = Inr (JArray []) \<and>
         generateRoadmap e JSON_parse (Response responseText) = Inr (JArray []) \<and>
         suggestSkills e JSON_parse (Response responseText) currentSkills currentGoals = Inr (JArray []) \<and>
         analyzeMatch e JSON_parse (Response responseText) =
           Inr (JObject [(''score'', JNumber 0),
                         (''reasoning'', JString ''Could not analyze match.''),
                         (''commonInterests'', JArray [])])"
proof (cases responseText)
  case None
  with assms(1) show ?thesis
    by (simp add: generateQuizInternal_def generateRoadmap_def suggestSkills_def analyzeMatch_def
        parseText_def)
next
  case (Some t)
  with assms(2) have "responseText = Some []" by simp
  with assms(1) show ?thesis
    by (simp add: generateQuizInternal_def generateRoadmap_def suggestSkills_def analyzeMatch_def
        parseText_def)
qed

lemma direct_array_returned:
  assumes "directContent JSON_parse fetched = Inr parsed"
  shows "(getMember (Some parsed) ''skills'' = Inr (Some (JArray xs)) \<longrightarrow>
            suggestSkillsDirect JSON_parse fetched = JArray xs) \<and>
         (getMember (Some parsed) ''roadmap'' = Inr (Some (JArray xs)) \<longrightarrow>
            generateRoadmapDirect JSON_parse fetched skill = JArray xs)"
  using assms by (simp add: suggestSkillsDirect_def generateRoadmapDirect_def)

subsection \<open>Validation of the decoded response\<close>

text \<open>
  Claim C9, as the code has it. The operations of the Mistral service validate before they
  return: a result of \<open>suggestSkillsMistral\<close> is an array of exactly 5 entries, a result of
  \<open>generateRoadmapMistral\<close> is an array of exactly 6 steps, each an object with non-empty
  strings as title, description and duration and an array of exactly 3 resources. The direct
  Mistral operations return an array in every case; an array found under \<^verbatim>\<open>skills\<close> or
  \<^verbatim>\<open>roadmap\<close> in the decoded content is returned as it is, and the fallback roadmap has 6
  steps of that shape. The Gemini operations validate nothing. With an API key and a
  response whose text is not empty and decodes, \<open>generateRoadmap\<close> and \<open>analyzeMatch\<close>
  return the decoded value; \<open>generateQuiz\<close> returns it when the response is that of the
  first attempt that succeeds, the attempts before having failed with errors that are not
  client errors; and where \<^verbatim>\<open>data.skills\<close> does not throw, \<open>suggestSkills\<close> returns its
  value when that is truthy and an empty array otherwise. For a response without text or
  with an empty one they return an empty array, and \<open>analyzeMatch\<close> its result with score 0.
\<close>

theorem validation_before_return:
  "(suggestSkillsMistral JSON_parse invoked = Inr result \<longrightarrow>
      (\<exists>xs. result = JArray xs \<and> length xs = 5)) \<and>
   (generateRoadmapMistral JSON_parse invoked = Inr result \<longrightarrow>
      (\<exists>steps. result = JArray steps \<and> length steps = 6 \<and> list_all wellFormedStep steps)) \<and>
   (\<exists>xs. suggestSkillsDirect JSON_parse fetched = JArray xs) \<and>
   (\<exists>xs. generateRoadmapDirect JSON_parse fetched skill = JArray xs) \<and>
   (directContent JSON_parse fetched = Inr parsed \<longrightarrow>
      (getMember (Some parsed) ''skills'' = Inr (Some (JArray found)) \<longrightarrow>
         suggestSkillsDirect JSON_parse fetched = JArray found) \<and>
      (getMember (Some parsed) ''roadmap'' = Inr (Some (JArray found)) \<longrightarrow>
         generateRoadmapDirect JSON_parse fetched skill = JArray found)) \<and>
   (\<exists>steps. fallbackRoadmap skill = JArray steps \<and> length steps = 6 \<and>
      list_all wellFormedStep steps) \<and>
   (getAIClient e = Inr ai \<and> t \<noteq> [] \<and> JSON_parse t = Inr decoded \<longrightarrow>
      generateRoadmap e JSON_parse (Response (Some t)) = Inr decoded \<and>
      analyzeMatch e JSON_parse (Response (Some t)) = Inr decoded \<and>
      (\<forall>k. 1 \<le> k \<and> k \<le> 3 \<and>
           (\<forall>n. 1 \<le> n \<and> n < k \<longrightarrow>
              (\<exists>err. generateQuizInternal e JSON_parse (remote n) = Inl err \<and>
                     \<not> clientError err)) \<and>
           remote k = Response (Some t) \<longrightarrow>
         generateQuiz e JSON_parse remote random shuffle skillName = Generated decoded) \<and>
      (\<forall>v. getMember (Some decoded) ''skills'' = Inr v \<longrightarrow>
         (truthy v \<longrightarrow>
            (\<exists>x. v = Some x \<and>
               suggestSkills e JSON_parse (Response (Some t)) currentSkills currentGoals =
                 Inr x)) \<and>
         (\<not> truthy v \<longrightarrow>
            suggestSkills e JSON_parse (Response (Some t)) currentSkills currentGoals =
              Inr (JArray [])))) \<and>
   (getAIClient e = Inr ai \<and> (responseText = None \<or> responseText = Some []) \<longrightarrow>
      generateRoadmap e JSON_parse (Response responseText) = Inr (JArray []) \<and>
      suggestSkills e JSON_parse (Response responseText) currentSkills currentGoals = Inr (JArray []) \<and>
      analyzeMatch e JSON_parse (Response responseText) =
        Inr (JObject [(''score'', JNumber 0),
                      (''reasoning'', JString ''Could not analyze match.''),
                      (''commonInterests'', JArray [])]) \<and>
      (\<forall>k. 1 \<le> k \<and> k \<le> 3 \<and>
           (\<forall>n. 1 \<le> n \<and> n < k \<longrightarrow>
              (\<exists>err. generateQuizInternal e JSON_parse (remote n) = Inl err \<and>
                     \<not> clientError err)) \<and>
           remote k = Response responseText \<longrightarrow>
         generateQuiz e JSON_parse remote random shuffle skillName = Generated (JArray [])))"
proof -
  have 1: "suggestSkillsMistral JSON_parse invoked = Inr result \<longrightarrow>
      (\<exists>xs. result = JArray xs \<and> length xs = 5)"
    by (intro impI) (rule suggestSkillsMistral_shape)
  have 2: "generateRoadmapMistral JSON_parse invoked = Inr result \<longrightarrow>
      (\<exists>steps. result = JArray steps \<and> length steps = 6 \<and> list_all wellFormedStep steps)"
    by (intro impI) (rule generateRoadmapMistral_shape)
  have 3: "directContent JSON_parse fetched = Inr parsed \<longrightarrow>
      (getMember (Some parsed) ''skills'' = Inr (Some (JArray found)) \<longrightarrow>
         suggestSkillsDirect JSON_parse fetched = JArray found) \<and>
      (getMember (Some parsed) ''roadmap'' = Inr (Some (JArray found)) \<longrightarrow>
         generateRoadmapDirect JSON_parse fetched skill = JArray found)"
    by (intro impI) (rule direct_array_returned)
  have 6: "getAIClient e = Inr ai \<and> t \<noteq> [] \<and> JSON_parse t = Inr decoded \<longrightarrow>
      generateRoadmap e JSON_parse (Response (Some t)) = Inr decoded \<and>
      analyzeMatch e JSON_parse (Response (Some t)) = Inr decoded \<and>
      (\<forall>k. 1 \<le> k \<and> k \<le> 3 \<and>
           (\<forall>n. 1 \<le> n \<and> n < k \<longrightarrow>
              (\<exists>err. generateQuizInternal e JSON_parse (remote n) = Inl err \<and>
                     \<not> clientError err)) \<and>
           remote k = Response (Some t) \<longrightarrow>
         generateQuiz e JSON_parse remote random shuffle skillName = Generated decoded) \<and>
      (\<forall>v. getMember (Some decoded) ''skills'' = Inr v \<longrightarrow>
         (truthy v \<longrightarrow>
            (\<exists>x. v = Some x \<and>
               suggestSkills e JSON_parse (Response (Some t)) currentSkills currentGoals =
                 Inr x)) \<and>
         (\<not> truthy v \<longrightarrow>
            suggestSkills e JSON_parse (Response (Some t)) currentSkills currentGoals =
              Inr (JArray [])))"
  proof (intro impI, elim conjE)
    assume a: "getAIClient e = Inr ai" "t \<noteq> []" "JSON_parse t = Inr decoded"
    note d = gemini_returns_decoded [where e = e and t = t and JSON_parse = JSON_parse, OF a]
    from d have r: "generateRoadmap e JSON_parse (Response (Some t)) = Inr decoded" by simp
    from d have m: "analyzeMatch e JSON_parse (Response (Some t)) = Inr decoded" by simp
    have q: "\<forall>k. 1 \<le> k \<and> k \<le> 3 \<and>
           (\<forall>n. 1 \<le> n \<and> n < k \<longrightarrow>
              (\<exists>err. generateQuizInternal e JSON_parse (remote n) = Inl err \<and>
                     \<not> clientError err)) \<and>
           remote k = Response (Some t) \<longrightarrow>
         generateQuiz e JSON_parse remote random shuffle skillName = Generated decoded"
    proof (intro allI impI, elim conjE)
      fix k
      assume k: "1 \<le> k" "k \<le> 3"
        and f: "\<forall>n. 1 \<le> n \<and> n < k \<longrightarrow>
              (\<exists>err. generateQuizInternal e JSON_parse (remote n) = Inl err \<and>
                     \<not> clientError err)"
        and rk: "remote k = Response (Some t)"
      from d rk have "generateQuizInternal e JSON_parse (remote k) = Inr decoded" by simp
      from generateQuiz_success [OF k f this]
      show "generateQuiz e JSON_parse remote random shuffle skillName = Generated decoded" .
    qed
    have s: "\<forall>v. getMember (Some decoded) ''skills'' = Inr v \<longrightarrow>
         (truthy v \<longrightarrow>
            (\<exists>x. v = Some x \<and>
               suggestSkills e JSON_parse (Response (Some t)) currentSkills currentGoals =
                 Inr x)) \<and>
         (\<not> truthy v \<longrightarrow>
            suggestSkills e JSON_parse (Response (Some t)) currentSkills currentGoals =
              Inr (JArray []))"
    proof (intro allI impI)
      fix v
      assume "getMember (Some decoded) ''skills'' = Inr v"
      from suggestSkills_returns [where e = e and t = t and JSON_parse = JSON_parse and v = v
          and currentSkills = currentSkills and currentGoals = currentGoals, OF a this]
      show "(truthy v \<longrightarrow>
            (\<exists>x. v = Some x \<and>
               suggestSkills e JSON_parse (Response (Some t)) currentSkills currentGoals =
                 Inr x)) \<and>
         (\<not> truthy v \<longrightarrow>
            suggestSkills e JSON_parse (Response (Some t)) currentSkills currentGoals =
              Inr (JArray []))" .
    qed
    from r m q s
    show "generateRoadmap e JSON_parse (Response (Some t)) = Inr decoded \<and>
      analyzeMatch e JSON_parse (Response (Some t)) = Inr decoded \<and>
      (\<forall>k. 1 \<le> k \<and> k \<le> 3 \<and>
           (\<forall>n. 1 \<le> n \<and> n < k \<longrightarrow>
              (\<exists>err. generateQuizInternal e JSON_parse (remote n) = Inl err \<and>
                     \<not> clientError err)) \<and>
           remote k = Response (Some t) \<longrightarrow>
         generateQuiz e JSON_parse remote random shuffle skillName = Generated decoded) \<and>
      (\<forall>v. getMember (Some decoded) ''skills'' = Inr v \<longrightarrow>
         (truthy v \<longrightarrow>
            (\<exists>x. v = Some x \<and>
               suggestSkills e JSON_parse (Response (Some t)) currentSkills currentGoals =
                 Inr x)) \<and>
         (\<not> truthy v \<longrightarrow>
            suggestSkills e JSON_parse (Response (Some t)) currentSkills currentGoals =
              Inr (JArray [])))"
      by (intro conjI)
  qed
  have 7: "getAIClient e = Inr ai \<and> (responseText = None \<or> responseText = Some []) \<longrightarrow>
      generateRoadmap e JSON_parse (Response responseText) = Inr (JArray []) \<and>
      suggestSkills e JSON_parse (Response responseText) currentSkills currentGoals = Inr (JArray []) \<and>
      analyzeMatch e JSON_parse (Response responseText) =
        Inr (JObject [(''score'', JNumber 0),
                      (''reasoning'', JString ''Could not analyze match.''),
                      (''commonInterests'', JArray [])]) \<and>
      (\<forall>k. 1 \<le> k \<and> k \<le> 3 \<and>
           (\<forall>n. 1 \<le> n \<and> n < k \<longrightarrow>
              (\<exists>err. generateQuizInternal e JSON_parse (remote n) = Inl err \<and>
                     \<not> clientError err)) \<and>
           remote k = Response responseText \<longrightarrow>
         generateQuiz e JSON_parse remote random shuffle skillName = Generated (JArray []))"
  proof (intro impI, elim conjE)
    assume a: "getAIClient e = Inr ai" "responseText = None \<or> responseText = Some []"
    note d = gemini_no_text [where e = e and responseText = responseText and JSON_parse = JSON_parse
        and currentSkills = currentSkills and currentGoals = currentGoals, OF a]
    from d have r: "generateRoadmap e JSON_parse (Response responseText) = Inr (JArray [])" by simp
    from d have s: "suggestSkills e JSON_parse (Response responseText) currentSkills currentGoals =
        Inr (JArray [])" by simp
    from d have m: "analyzeMatch e JSON_parse (Response responseText) =
        Inr (JObject [(''score'', JNumber 0),
                      (''reasoning'', JString ''Could not analyze match.''),
                      (''commonInterests'', JArray [])])" by simp
    have q: "\<forall>k. 1 \<le> k \<and> k \<le> 3 \<and>
           (\<forall>n. 1 \<le> n \<and> n < k \<longrightarrow>
              (\<exists>err. generateQuizInternal e JSON_parse (remote n) = Inl err \<and>
                     \<not> clientError err)) \<and>
           remote k = Response responseText \<longrightarrow>
         generateQuiz e JSON_parse remote random shuffle skillName = Generated (JArray [])"
    proof (intro allI impI, elim conjE)
      fix k
      assume k: "1 \<le> k" "k \<le> 3"
        and f: "\<forall>n. 1 \<le> n \<and> n < k \<longrightarrow>
              (\<exists>err. generateQuizInternal e JSON_parse (remote n) = Inl err \<and>
                     \<not> clientError err)"
        and rk: "remote k = Response responseText"
      from d rk have "generateQuizInternal e JSON_parse (remote k) = Inr (JArray [])" by simp
      from generateQuiz_success [OF k f this]
      show "generateQuiz e JSON_parse remote random shuffle skillName = Generated (JArray [])" .
    qed
    from r s m q
    show "generateRoadmap e JSON_parse (Response responseText) = Inr (JArray []) \<and>
      suggestSkills e JSON_parse (Response responseText) currentSkills currentGoals = Inr (JArray []) \<and>
      analyzeMatch e JSON_parse (Response responseText) =
        Inr (JObject [(''score'', JNumber 0),
                      (''reasoning'', JString ''Could not analyze match.''),
                      (''commonInterests'', JArray [])]) \<and>
      (\<forall>k. 1 \<le> k \<and> k \<le> 3 \<and>
           (\<forall>n. 1 \<le> n \<and> n < k \<longrightarrow>
              (\<exists>err. generateQuizInternal e JSON_parse (remote n) = Inl err \<and>
                     \<not> clientError err)) \<and>
           remote k = Response responseText \<longrightarrow>
         generateQuiz e JSON_parse remote random shuffle skillName = Generated (JArray []))"
      by (intro conjI)
  qed
  from 1 2 suggestSkillsDirect_array generateRoadmapDirect_array 3 fallbackRoadmap_shape 6 7
  show ?thesis by (intro conjI)
qed

text \<open>
  The theorem at a response with five skills, at a response that holds the fallback
  roadmap for \<^verbatim>\<open>Go\<close>, and at a quiz whose first request is rejected and whose second
  response decodes.
\<close>

theorem validation_before_return_witness:
  "suggestSkillsMistral
     (\<lambda>t. Inr (JObject [(''skills'', JArray [JString ''Go'', JString ''Rust'', JString ''SQL'',
                                            JString ''Git'', JString ''Docker''])]))
     (Inr ''{}'') =
   Inr (JArray [JString ''Go'', JString ''Rust'', JString ''SQL'', JString ''Git'',
                JString ''Docker'']) \<and>
   generateRoadmapMistral (\<lambda>t. Inr (JObject [(''roadmap'', fallbackRoadmap ''Go'')])) (Inr ''{}'') =
   Inr (fallbackRoadmap ''Go'') \<and>
   (\<exists>steps. fallbackRoadmap ''Go'' = JArray steps \<and> length steps = 6 \<and>
      list_all wellFormedStep steps) \<and>
   generateQuiz \<lparr>API_KEY = Some ''k'', GEMINI_API_KEY = None\<rparr> (\<lambda>t. Inr (JBool True))
     (\<lambda>n. if n = 1 then Rejects (Error ''fetch failed'') else Response (Some ''true''))
     (\<lambda>n. 0) id ''java'' = Generated (JBool True)"
proof -
  have s: "suggestSkillsMistral
     (\<lambda>t. Inr (JObject [(''skills'', JArray [JString ''Go'', JString ''Rust'', JString ''SQL'',
                                            JString ''Git'', JString ''Docker''])]))
     (Inr ''{}'') =
   Inr (JArray [JString ''Go'', JString ''Rust'', JString ''SQL'', JString ''Git'',
                JString ''Docker''])"
    by (simp add: suggestSkillsMistral_def)
  have r: "generateRoadmapMistral (\<lambda>t. Inr (JObject [(''roadmap'', fallbackRoadmap ''Go'')]))
     (Inr ''{}'') = Inr (fallbackRoadmap ''Go'')"
    by (simp add: generateRoadmapMistral_def fallbackRoadmap_def roadmapStep_def validateStep_def)
  from validation_before_return
    [of "\<lambda>t. Inr (JObject [(''roadmap'', fallbackRoadmap ''Go'')])" "Inr ''{}''"
        "fallbackRoadmap ''Go''", THEN conjunct2, THEN conjunct1] r
  have f: "\<exists>steps. fallbackRoadmap ''Go'' = JArray steps \<and> length steps = 6 \<and>
      list_all wellFormedStep steps"
    by (rule mp)
  have k: "getAIClient \<lparr>API_KEY = Some ''k'', GEMINI_API_KEY = None\<rparr> = Inr ''k''"
    by (simp add: getAIClient_def)
  have c: "\<not> clientError (Error ''fetch failed'')"
    by (simp add: clientError_def Error_def)
  have q: "generateQuiz \<lparr>API_KEY = Some ''k'', GEMINI_API_KEY = None\<rparr> (\<lambda>t. Inr (JBool True))
     (\<lambda>n. if n = 1 then Rejects (Error ''fetch failed'') else Response (Some ''true''))
     (\<lambda>n. 0) id ''java'' = Generated (JBool True)"
  proof -
    let ?e = "\<lparr>API_KEY = Some ''k'', GEMINI_API_KEY = None\<rparr>"
    let ?remote = "\<lambda>n::nat. if n = 1 then Rejects (Error ''fetch failed'') else Response (Some ''true'')"
    have "\<forall>k. 1 \<le> k \<and> k \<le> 3 \<and>
           (\<forall>n. 1 \<le> n \<and> n < k \<longrightarrow>
              (\<exists>err. generateQuizInternal ?e (\<lambda>t. Inr (JBool True)) (?remote n) = Inl err \<and>
                     \<not> clientError err)) \<and>
           ?remote k = Response (Some ''true'') \<longrightarrow>
         generateQuiz ?e (\<lambda>t. Inr (JBool True)) ?remote (\<lambda>n. 0) id ''java'' =
           Generated (JBool True)"
      using validation_before_return
        [where e = ?e and ai = "''k''" and t = "''true''" and decoded = "JBool True"
           and JSON_parse = "\<lambda>t. Inr (JBool True)" and remote = ?remote
           and random = "\<lambda>n. 0" and shuffle = id and skillName = "''java''"] k
      by simp
    then have "1 \<le> (2::nat) \<and> (2::nat) \<le> 3 \<and>
           (\<forall>n. 1 \<le> n \<and> n < 2 \<longrightarrow>
              (\<exists>err. generateQuizInternal ?e (\<lambda>t. Inr (JBool True)) (?remote n) = Inl err \<and>
                     \<not> clientError err)) \<and>
           ?remote 2 = Response (Some ''true'') \<longrightarrow>
         generateQuiz ?e (\<lambda>t. Inr (JBool True)) ?remote (\<lambda>n. 0) id ''java'' =
           Generated (JBool True)"
      by (rule spec)
    moreover have "\<forall>n. 1 \<le> n \<and> n < 2 \<longrightarrow>
              (\<exists>err. generateQuizInternal ?e (\<lambda>t. Inr (JBool True)) (?remote n) = Inl err \<and>
                     \<not> clientError err)"
    proof (intro allI impI)
      fix n :: nat assume "1 \<le> n \<and> n < 2"
      then have "n = 1" by simp
      with k c show "\<exists>err. generateQuizInternal ?e (\<lambda>t. Inr (JBool True)) (?remote n) = Inl err \<and>
                     \<not> clientError err"
        by (simp add: generateQuizInternal_def)
    qed
    ultimately show ?thesis by simp
  qed
  from s r f q show ?thesis by (intro conjI)
qed

text \<open>
  The claim as stated has every operation return a result of the declared shape. A decoded
  response with one skill is returned by \<open>suggestSkillsDirect\<close> and by \<open>suggestSkills\<close>, and
  \<open>suggestSkills\<close> returns the number 7 when that is what \<^verbatim>\<open>data.skills\<close> holds;
  \<open>generateQuiz\<close> returns an empty list for a response without text, and \<^verbatim>\<open>null\<close> for a
  response that decodes to it.
\<close>

theorem unvalidated_results_returned:
  "suggestSkillsDirect (\<lambda>t. Inr (JObject [(''skills'', JArray [JString ''Rust''])]))
     (Inr \<lparr>ok = True, http_status = 200, statusText = ''OK'',
           body = Inr (JObject [(''choices'', JArray [JObject [(''message'',
                    JObject [(''content'', JString ''{}'')])]])])\<rparr>) = JArray [JString ''Rust''] \<and>
   suggestSkills \<lparr>API_KEY = Some ''k'', GEMINI_API_KEY = None\<rparr>
     (\<lambda>t. Inr (JObject [(''skills'', JArray [JString ''Rust''])])) (Response (Some ''{}'')) [] [] =
     Inr (JArray [JString ''Rust'']) \<and>
   suggestSkills \<lparr>API_KEY = Some ''k'', GEMINI_API_KEY = None\<rparr>
     (\<lambda>t. Inr (JObject [(''skills'', JNumber 7)])) (Response (Some ''{}'')) [] [] =
     Inr (JNumber 7) \<and>
   generateQuiz \<lparr>API_KEY = Some ''k'', GEMINI_API_KEY = None\<rparr> (\<lambda>t. Inr JNull)
     (\<lambda>n. Response None) (\<lambda>n. 0) id ''java'' = Generated (JArray []) \<and>
   generateQuiz \<lparr>API_KEY = Some ''k'', GEMINI_API_KEY = None\<rparr> (\<lambda>t. Inr JNull)
     (\<lambda>n. Response (Some ''null'')) (\<lambda>n. 0) id ''java'' = Generated JNull"
  by (simp add: suggestSkillsDirect_def directContent_def suggestSkills_def getAIClient_def
      orEmptyArray_def generateQuiz_def generateQuizInternal_def parseText_def
      retryWithBackoff_def retryLoop.simps [of _ _ _ _ "Suc 0"])

subsection \<open>A missing API key\<close>

text \<open>
  Claim C10. With neither \<^verbatim>\<open>API_KEY\<close> nor \<^verbatim>\<open>GEMINI_API_KEY\<close> set to a non-empty string,
  \<open>analyzeMatch\<close> throws \<^verbatim>\<open>API Key not found\<close>: the client is made before the \<^verbatim>\<open>try\<close>.
  \<open>generateQuiz\<close> makes the client inside the retried operation and returns the fallback
  quiz.
\<close>

theorem missing_api_key:
  assumes "API_KEY e = None \<or> API_KEY e = Some []"
    and "GEMINI_API_KEY e = None \<or> GEMINI_API_KEY e = Some []"
  shows "analyzeMatch e JSON_parse reply = Inl (Error ''API Key not found'') \<and>
         generateQuiz e JSON_parse remote random shuffle skillName =
           Fallback (getFallbackQuiz shuffle skillName)"
proof -
  note k = getAIClient_missing [OF assms]
  have "\<forall>n. 1 \<le> n \<and> n \<le> 3 \<longrightarrow> (\<exists>err. generateQuizInternal e JSON_parse (remote n) = Inl err)"
    by (simp add: generateQuizInternal_def k)
  from generateQuiz_fallback [OF this] k show ?thesis
    by (simp add: analyzeMatch_def)
qed

text \<open>The theorem at an environment where one variable is unset and the other is empty.\<close>

theorem missing_api_key_witness:
  "analyzeMatch \<lparr>API_KEY = None, GEMINI_API_KEY = Some ''''\<rparr> (\<lambda>t. Inr JNull)
     (Response (Some ''{}'')) = Inl (Error ''API Key not found'') \<and>
   generateQuiz \<lparr>API_KEY = None, GEMINI_API_KEY = Some ''''\<rparr> (\<lambda>t. Inr JNull)
     (\<lambda>n. Response (Some ''[]'')) (\<lambda>n. 0) id ''java'' = Fallback (getFallbackQuiz id ''java'')"
  using missing_api_key [of "\<lparr>API_KEY = None, GEMINI_API_KEY = Some ''''\<rparr>"]
  by simp

end
